theory Spec2Isabelle
  imports Complex_Main "HOL-Library.Word"
begin

unbundle bit_operations_syntax

section \<open>Landmark alignment and triangulated warping (openbr/plugins/landmarks.cpp)\<close>

text \<open>
  The development embeds \<open>ProcrustesTransform::train\<close>, \<open>ProcrustesTransform::project\<close>
  and \<open>DelaunayTransform::project\<close>.

  Coordinates (\<open>qreal\<close>, \<open>float\<close>, \<open>double\<close>) are idealised as \<open>real\<close>: rounding, infinities
  and NaN are outside the model, with one exception. The conversion to \<open>float\<close> of line
  183 (\<open>OpenCVUtils::toPoint\<close>) decides whether \<open>Subdiv2D::insert\<close> raises, so it is
  a parameter of the model and \<open>float32\<close> below is its rounding; the other conversions
  only round values that are passed on and are taken as exact. Where the C++ divides by a zero norm it produces
  non-finite coordinates and carries on; the model carries on as well, with HOL's
  \<open>x / 0 = 0\<close> standing in for the non-finite values, so at a zero norm only the control
  flow of the model (which branch is taken, what is reported) is to be read, not the
  coordinates.

  \<open>qFatal\<close>, a failed \<open>Q_ASSERT\<close> of \<open>QList\<close> indexing, a failed Eigen dimension
  assertion and a \<open>cv::Exception\<close> end the call without a result: they are the \<open>Inl\<close>
  branch of the result. A \<open>qWarning\<close> is logged and the call returns: warnings are
  returned next to the output record.
\<close>

subsection \<open>Data model\<close>

type_synonym point = "real \<times> real"

text \<open>\<open>QRectF\<close>: a corner and a size, with Qt's corner accessors.\<close>

record rect =
  rx :: real
  ry :: real
  rwidth :: real
  rheight :: real

definition topLeft :: "rect \<Rightarrow> point" where
  "topLeft r = (rx r, ry r)"

definition topRight :: "rect \<Rightarrow> point" where
  "topRight r = (rx r + rwidth r, ry r)"

definition bottomLeft :: "rect \<Rightarrow> point" where
  "bottomLeft r = (rx r, ry r + rheight r)"

definition bottomRight :: "rect \<Rightarrow> point" where
  "bottomRight r = (rx r + rwidth r, ry r + rheight r)"

text \<open>
  \<open>cv::Mat\<close>: extent, element type and pixels. Pixel \<open>(r, c)\<close> of a matrix \<open>A\<close> is
  \<open>px A r c\<close>; only \<open>0 \<le> r < rows A\<close>, \<open>0 \<le> c < cols A\<close> is part of the image. Pixels
  are 8-bit: the warp combines the image with a \<open>CV_8UC1\<close> mask by \<open>bitwise_and\<close>, which
  OpenCV refuses for any other element type (see \<open>warp_triangles\<close>).
\<close>

record mat =
  rows :: int
  cols :: int
  mtype :: nat
  px :: "int \<Rightarrow> int \<Rightarrow> 8 word"

definition CV_8UC1 :: nat where
  "CV_8UC1 = 0"

text \<open>
  Modelled from the spec: \<open>br::File\<close> and \<open>br::Template\<close> with their accessors
  (\<open>points\<close>, \<open>rects\<close>, \<open>appendPoint\<close>, \<open>setRects\<close>, \<open>setList\<close>, \<open>getList\<close>, \<open>m\<close>)
  are declared in openbr's headers, not under src/. Section 6: a record carries an image
  buffer and a file of metadata holding an ordered list of landmark points, a list of
  rectangular regions, and a key/value store through which "ProcrustesStats" (a numeric
  list) and "DelaunayTriangles" (a flat point list) travel.
\<close>

datatype variant = FloatList "real list" | PointList "point list"

record File =
  points :: "point list"
  rects :: "rect list"
  metadata :: "string \<rightharpoonup> variant"

record template =
  t_m :: mat
  t_file :: File

datatype error =
    Fatal string
  | IndexOutOfRange
  | DimensionMismatch
  | CvError string

type_synonym 'a result = "error + 'a"

text \<open>
  Modelled from the spec: the setters of \<open>br::File\<close>. \<open>appendPoint\<close> adds one point at
  the end of the landmark points, \<open>setList\<close> stores a list under a key, replacing what
  was there, \<open>setRects\<close> replaces the rects (section 4.4: "replacing any previous
  bounding region").
\<close>

definition appendPoint :: "point \<Rightarrow> File \<Rightarrow> File" where
  "appendPoint p f = f\<lparr>points := points f @ [p]\<rparr>"

definition setFloatList :: "string \<Rightarrow> real list \<Rightarrow> File \<Rightarrow> File" where
  "setFloatList key l f = f\<lparr>metadata := (metadata f)(key \<mapsto> FloatList l)\<rparr>"

definition setPointList :: "string \<Rightarrow> point list \<Rightarrow> File \<Rightarrow> File" where
  "setPointList key l f = f\<lparr>metadata := (metadata f)(key \<mapsto> PointList l)\<rparr>"

definition setRects :: "rect list \<Rightarrow> File \<Rightarrow> File" where
  "setRects rs f = f\<lparr>rects := rs\<rparr>"

text \<open>
  Modelled from the spec: \<open>File::getList<float>(key)\<close> (openbr's file.h, not under src/)
  called without a default. Section 4.4 leaves the warp undefined when the alignment
  parameters are absent; the model ends the call with a fatal error there.
\<close>

definition getFloatList :: "string \<Rightarrow> File \<Rightarrow> real list result" where
  "getFloatList key f =
     (case metadata f key of
        Some (FloatList l) \<Rightarrow> Inr l
      | _ \<Rightarrow> Inl (Fatal ''Missing key''))"

text \<open>\<open>QList::at(i)\<close> and \<open>QList::operator[]\<close>: an index out of range fails Qt's assertion.\<close>

definition qlist_at :: "'a list \<Rightarrow> nat \<Rightarrow> 'a result" where
  "qlist_at xs i = (if i < length xs then Inr (xs ! i) else Inl IndexOutOfRange)"

text \<open>
  The value a \<open>double\<close> takes when it is converted to \<open>float\<close> (IEEE 754 binary32, round
  to nearest, ties to even): the nearest multiple of the unit in the last place, which
  is \<open>2\<close> to the power \<open>e - 23\<close> for a magnitude in \<open>[2\<^sup>e, 2\<^sup>e\<^sup>+\<^sup>1)\<close> and \<open>2\<^sup>-\<^sup>1\<^sup>4\<^sup>9\<close> below
  the normal range. Overflow to infinity is not modelled.
\<close>

definition round_half_even :: "real \<Rightarrow> int" where
  "round_half_even y =
     (let f = \<lfloor>y\<rfloor>
      in if y - real_of_int f < 1 / 2 then f
         else if y - real_of_int f > 1 / 2 then f + 1
         else if even f then f else f + 1)"

definition float32 :: "real \<Rightarrow> real" where
  "float32 x =
     (if x = 0 then 0
      else let e = max (- 126) \<lfloor>log 2 \<bar>x\<bar>\<rfloor>;
               ulp = 2 powi (e - 23)
           in real_of_int (round_half_even (x / ulp)) * ulp)"

subsection \<open>Point normalisation (lines 40-52 and 90-102)\<close>

text \<open>
  Modelled from the spec: \<open>cv::mean\<close> and \<open>cv::norm\<close> are OpenCV functions, not under src/.
  Section 4.1: the centroid is the arithmetic mean of all point coordinates, the scale is
  the Euclidean norm of the coordinate vector formed by concatenating all (x,y) pairs.
\<close>

definition cv_mean :: "point list \<Rightarrow> point" where
  "cv_mean ps = (sum_list (map fst ps) / real (length ps),
                 sum_list (map snd ps) / real (length ps))"

definition cv_norm :: "point list \<Rightarrow> real" where
  "cv_norm ps = sqrt (sum_list (map (\<lambda>p. fst p * fst p + snd p * snd p) ps))"

text \<open>Lines 41-44 and 91-94: the corners of the bounding box, in this order.\<close>

definition appendCorners :: "point list \<Rightarrow> rect \<Rightarrow> point list" where
  "appendCorners ps r = ps @ [topLeft r, topRight r, bottomLeft r, bottomRight r]"

text \<open>Lines 47-48 and 96-97: \<open>points[i] -= QPointF(mean[0], mean[1])\<close>.\<close>

definition centerPoints :: "point \<Rightarrow> point list \<Rightarrow> point list" where
  "centerPoints mean ps = map (\<lambda>p. (fst p - fst mean, snd p - snd mean)) ps"

text \<open>Lines 52 and 102: \<open>points[i] /= norm\<close>.\<close>

definition scalePoints :: "real \<Rightarrow> point list \<Rightarrow> point list" where
  "scalePoints nrm ps = map (\<lambda>p. (fst p / nrm, snd p / nrm)) ps"

text \<open>
  The normalisation both \<open>train\<close> and \<open>project\<close> apply to the full point set; it returns
  the normalised points with the centroid and the norm that were used.
\<close>

definition normalizePoints :: "point list \<Rightarrow> point list \<times> point \<times> real" where
  "normalizePoints ps =
     (let mean = cv_mean ps;
          centered = centerPoints mean ps;
          nrm = cv_norm centered
      in (scalePoints nrm centered, mean, nrm))"

subsection \<open>ProcrustesTransform::train (lines 29-77)\<close>

text \<open>Lines 34-55: the loop that collects the normalised shapes of the usable records.\<close>

fun train_collect :: "template list \<Rightarrow> point list list \<Rightarrow> point list list" where
  "train_collect [] normalizedPoints = normalizedPoints"
| "train_collect (datum # data) normalizedPoints =
     (if points (t_file datum) = [] \<or> rects (t_file datum) = []
      then train_collect data normalizedPoints
      else train_collect data
             (normalizedPoints @
                [fst (normalizePoints
                        (appendCorners (points (t_file datum)) (last (rects (t_file datum)))))]))"

text \<open>Lines 63-72: the mean of row \<open>i\<close> over all shapes; every shape is indexed at \<open>i\<close>.\<close>

fun sum_row :: "point list list \<Rightarrow> nat \<Rightarrow> point \<Rightarrow> point result" where
  "sum_row [] i acc = Inr acc"
| "sum_row (s # ss) i acc =
     (case qlist_at s i of
        Inl e \<Rightarrow> Inl e
      | Inr p \<Rightarrow> sum_row ss i (fst acc + fst p, snd acc + snd p))"

definition mean_row :: "point list list \<Rightarrow> nat \<Rightarrow> point result" where
  "mean_row normalizedPoints i =
     (case sum_row normalizedPoints i (0, 0) of
        Inl e \<Rightarrow> Inl e
      | Inr acc \<Rightarrow> Inr (fst acc / real (length normalizedPoints),
                       snd acc / real (length normalizedPoints)))"

fun mean_rows :: "point list list \<Rightarrow> nat list \<Rightarrow> point list result" where
  "mean_rows normalizedPoints [] = Inr []"
| "mean_rows normalizedPoints (i # is) =
     (case mean_row normalizedPoints i of
        Inl e \<Rightarrow> Inl e
      | Inr p \<Rightarrow>
          (case mean_rows normalizedPoints is of
             Inl e \<Rightarrow> Inl e
           | Inr ps \<Rightarrow> Inr (p # ps)))"

text \<open>The trained model is the mean shape, one row per point.\<close>

definition Procrustes_train :: "template list \<Rightarrow> point list result" where
  "Procrustes_train data =
     (let normalizedPoints = train_collect data []
      in if normalizedPoints = [] then Inl (Fatal ''Unable to calculate normalized points'')
         else mean_rows normalizedPoints [0 ..< length (hd normalizedPoints)])"

subsection \<open>ProcrustesTransform::project (lines 79-124)\<close>

record mat2 =
  m00 :: real
  m01 :: real
  m10 :: real
  m11 :: real

text \<open>
  \<open>srcMat.transpose() * meanShape\<close>, line 107: the product of a 2-by-N and an M-by-2
  matrix; Eigen asserts \<open>N = M\<close>.
\<close>

definition crossCovariance :: "point list \<Rightarrow> point list \<Rightarrow> mat2 result" where
  "crossCovariance srcMat meanShape =
     (if length srcMat \<noteq> length meanShape then Inl DimensionMismatch
      else Inr \<lparr>m00 = (\<Sum>(s, t) \<leftarrow> zip srcMat meanShape. fst s * fst t),
                m01 = (\<Sum>(s, t) \<leftarrow> zip srcMat meanShape. fst s * snd t),
                m10 = (\<Sum>(s, t) \<leftarrow> zip srcMat meanShape. snd s * fst t),
                m11 = (\<Sum>(s, t) \<leftarrow> zip srcMat meanShape. snd s * snd t)\<rparr>)"

text \<open>\<open>svd.matrixU() * svd.matrixV().transpose()\<close>, line 108.\<close>

definition timesTranspose :: "mat2 \<Rightarrow> mat2 \<Rightarrow> mat2" where
  "timesTranspose U V =
     \<lparr>m00 = m00 U * m00 V + m01 U * m01 V,
      m01 = m00 U * m10 V + m01 U * m11 V,
      m10 = m10 U * m00 V + m11 U * m01 V,
      m11 = m10 U * m10 V + m11 U * m11 V\<rparr>"

text \<open>One row of \<open>srcMat * R\<close>, lines 119 and 232.\<close>

definition rowTimes :: "point \<Rightarrow> mat2 \<Rightarrow> point" where
  "rowTimes p R = (fst p * m00 R + snd p * m10 R, fst p * m01 R + snd p * m11 R)"

text \<open>Lines 120-122: the rows of \<open>dstMat\<close> are appended to the points of \<open>dst\<close> one by one.\<close>

fun appendPoints :: "point list \<Rightarrow> File \<Rightarrow> File" where
  "appendPoints [] f = f"
| "appendPoints (p # ps) f = appendPoints ps (appendPoint p f)"

text \<open>
  The singular value decomposition (Eigen's \<open>JacobiSVD\<close>) is a parameter: \<open>svd M\<close> is the
  pair \<open>(matrixU, matrixV)\<close>. \<open>warp\<close> is the transform's property, \<open>meanShape\<close> its trained
  state. Every path starts from \<open>dst = src\<close>.
\<close>

definition Procrustes_project ::
  "(mat2 \<Rightarrow> mat2 \<times> mat2) \<Rightarrow> bool \<Rightarrow> point list \<Rightarrow> template \<Rightarrow> (string list \<times> template) result"
where
  "Procrustes_project svd warp meanShape src =
     (if points (t_file src) = [] \<or> rects (t_file src) = []
      then Inr ([''Procrustes alignment failed because points or rects are empty.''], src)
      else
        let (srcMat, mean, nrm) =
              normalizePoints (appendCorners (points (t_file src)) (last (rects (t_file src))))
        in case crossCovariance srcMat meanShape of
             Inl e \<Rightarrow> Inl e
           | Inr M \<Rightarrow>
               let (U, V) = svd M;
                   R = timesTranspose U V;
                   procrustesStats = [m00 R, m10 R, m11 R, m01 R, fst mean, snd mean, nrm];
                   dst = src\<lparr>t_file := setFloatList ''ProcrustesStats'' procrustesStats (t_file src)\<rparr>
               in Inr ([], if warp
                           then dst\<lparr>t_file := appendPoints (map (\<lambda>p. rowTimes p R) srcMat) (t_file dst)\<rparr>
                           else dst))"

subsection \<open>DelaunayTransform::project (lines 154-277)\<close>

definition bind :: "'a result \<Rightarrow> ('a \<Rightarrow> 'b result) \<Rightarrow> 'b result" where
  "bind x f = (case x of Inl e \<Rightarrow> Inl e | Inr v \<Rightarrow> f v)"

text \<open>
  \<open>cv::Subdiv2D\<close> (OpenCV, not under src/): the bounding rectangle \<open>Rect(0,0,cols,rows)\<close>
  and the vertices inserted so far. \<open>insert\<close> raises a \<open>cv::Exception\<close> for a point
  outside the rectangle, which is what the check of line 178 guards against.
\<close>

record subdiv2D =
  sd_cols :: int
  sd_rows :: int
  sd_vertices :: "point list"

definition Subdiv2D :: "int \<Rightarrow> int \<Rightarrow> subdiv2D" where
  "Subdiv2D c r = \<lparr>sd_cols = c, sd_rows = r, sd_vertices = []\<rparr>"

definition subdiv_insert :: "point \<Rightarrow> subdiv2D \<Rightarrow> subdiv2D result" where
  "subdiv_insert p s =
     (if fst p < 0 \<or> snd p < 0 \<or> fst p \<ge> real_of_int (sd_cols s) \<or> snd p \<ge> real_of_int (sd_rows s)
      then Inl (CvError ''Subdiv2D: point out of range'')
      else Inr (s\<lparr>sd_vertices := sd_vertices s @ [p]\<rparr>))"

text \<open>
  Lines 177-184. The check of line 178 reads the point as it is (doubles); line 183
  inserts its conversion to floats, \<open>conv p\<close>. \<open>None\<close> is the early return of line 181
  (\<open>dst = src\<close> with the warning); the points before the offending one have been
  inserted by then.
\<close>

fun insert_points ::
  "(point \<Rightarrow> point) \<Rightarrow> int \<Rightarrow> int \<Rightarrow> point list \<Rightarrow> subdiv2D \<Rightarrow> subdiv2D option result" where
  "insert_points conv c r [] subdiv = Inr (Some subdiv)"
| "insert_points conv c r (p # ps) subdiv =
     (if fst p < 0 \<or> snd p < 0 \<or> snd p \<ge> real_of_int r \<or> fst p \<ge> real_of_int c
      then Inr None
      else bind (subdiv_insert (conv p) subdiv) (insert_points conv c r ps))"

text \<open>\<open>Vec6f\<close>: the three vertices of a triangle as \<open>x0, y0, x1, y1, x2, y2\<close>.\<close>

type_synonym vec6f = "real \<times> real \<times> real \<times> real \<times> real \<times> real"

text \<open>Lines 195-198.\<close>

fun triangle_vertices :: "vec6f \<Rightarrow> point list" where
  "triangle_vertices (x0, y0, x1, y1, x2, y2) = [(x0, y0), (x1, y1), (x2, y2)]"

text \<open>Line 199: the test that clears \<open>valid\<close>.\<close>

definition outside_matrix :: "int \<Rightarrow> int \<Rightarrow> point \<Rightarrow> bool" where
  "outside_matrix c r v \<longleftrightarrow>
     fst v > real_of_int c \<or> snd v > real_of_int r \<or> fst v < 0 \<or> snd v < 0"

text \<open>Lines 189-202: the loop over \<open>triangleList\<close>, appending to \<open>validTriangles\<close>.\<close>

fun filter_triangles :: "int \<Rightarrow> int \<Rightarrow> vec6f list \<Rightarrow> point list \<Rightarrow> point list" where
  "filter_triangles c r [] validTriangles = validTriangles"
| "filter_triangles c r (t # triangleList) validTriangles =
     (let vertices = triangle_vertices t;
          valid = (\<not> list_ex (outside_matrix c r) vertices)
      in filter_triangles c r triangleList
           (if valid then validTriangles @ vertices else validTriangles))"

text \<open>
  The OpenCV operations of the mesh and the warp are parameters of the model:
  \<^item> \<open>getTriangleList\<close>: the triangles of the subdivision (line 187);
  \<^item> \<open>getAffineTransform\<close> and \<open>warpAffine\<close> (line 247), the latter with the output size
    \<open>Size(cols, rows)\<close>; it may raise;
  \<^item> \<open>fillConvexPoly\<close> (line 256) draws the triangle, its vertices rounded to integer
    points, with the given colour into the mask;
  \<^item> \<open>boundingRect\<close> (lines 272-273), converted to a \<open>QRectF\<close>; it may raise.
  With them comes \<open>toPoint\<close>, the conversion of a \<open>QPointF\<close> (two doubles) to a
  \<open>Point2f\<close> (two floats) of openbr's \<open>OpenCVUtils\<close>, applied at line 183.
\<close>

record 'aff opencv =
  toPoint :: "point \<Rightarrow> point"
  getTriangleList :: "subdiv2D \<Rightarrow> vec6f list"
  getAffineTransform :: "point list \<Rightarrow> point list \<Rightarrow> 'aff"
  warpAffine :: "mat \<Rightarrow> 'aff \<Rightarrow> int \<Rightarrow> int \<Rightarrow> mat result"
  fillConvexPoly :: "mat \<Rightarrow> point list \<Rightarrow> 8 word \<Rightarrow> mat"
  boundingRect :: "point list \<Rightarrow> rect result"

text \<open>\<open>Mat::zeros(rows, cols, type)\<close>.\<close>

definition zeros :: "int \<Rightarrow> int \<Rightarrow> nat \<Rightarrow> mat" where
  "zeros r c ty = \<lparr>rows = r, cols = c, mtype = ty, px = (\<lambda>i j. 0)\<rparr>"

definition same_shape :: "mat \<Rightarrow> mat \<Rightarrow> bool" where
  "same_shape a b \<longleftrightarrow> rows a = rows b \<and> cols a = cols b \<and> mtype a = mtype b"

text \<open>
  \<open>cv::bitwise_and(a, b, out)\<close>: element-wise conjunction of two arrays of the same size
  and type; OpenCV raises otherwise.
\<close>

definition bitwise_and :: "mat \<Rightarrow> mat \<Rightarrow> mat result" where
  "bitwise_and a b =
     (if same_shape a b then Inr (a\<lparr>px := (\<lambda>i j. px a i j AND px b i j)\<rparr>)
      else Inl (CvError ''bitwise_and: sizes or types differ''))"

text \<open>\<open>mask.setTo(0, overlap != 0)\<close>, line 263.\<close>

definition setTo_zero_where :: "mat \<Rightarrow> mat \<Rightarrow> mat" where
  "setTo_zero_where msk overlap =
     msk\<lparr>px := (\<lambda>i j. if px overlap i j \<noteq> 0 then 0 else px msk i j)\<rparr>"

text \<open>
  \<open>dst.m() += output\<close>, line 268: \<open>cv::add\<close>, which saturates 8-bit sums at 255 and
  raises when sizes or types differ.
\<close>

definition saturate_add :: "8 word \<Rightarrow> 8 word \<Rightarrow> 8 word" where
  "saturate_add a b = (if unat a + unat b > 255 then 255 else a + b)"

definition cv_add :: "mat \<Rightarrow> mat \<Rightarrow> mat result" where
  "cv_add a b =
     (if same_shape a b then Inr (a\<lparr>px := (\<lambda>i j. saturate_add (px a i j) (px b i j))\<rparr>)
      else Inl (CvError ''add: sizes or types differ''))"

text \<open>Lines 225-243: the destination vertices of one triangle.\<close>

definition dstTriangle ::
  "real \<Rightarrow> int \<Rightarrow> int \<Rightarrow> mat2 \<Rightarrow> point \<Rightarrow> real \<Rightarrow> point list \<Rightarrow> point list" where
  "dstTriangle scaleFactor c r R mean nrm srcPoints =
     (let srcMat = map (\<lambda>v. ((fst v - fst mean) / nrm, (snd v - snd mean) / nrm)) srcPoints;
          dstMat = map (\<lambda>p. rowTimes p R) srcMat
      in map (\<lambda>p. (fst p * scaleFactor + real_of_int (c div 2),
                    snd p * scaleFactor + real_of_int (r div 2))) dstMat)"

text \<open>
  Lines 258-266: \<open>output\<close>, the part of \<open>buffer\<close> this triangle contributes. For every
  triangle but the first the mask is cleared where the accumulated image is non-zero.
\<close>

definition masked_output :: "nat \<Rightarrow> mat \<Rightarrow> mat \<Rightarrow> mat \<Rightarrow> mat result" where
  "masked_output i dstm buffer msk =
     bind (if i > 0
           then bind (bitwise_and dstm msk) (\<lambda>overlap. Inr (setTo_zero_where msk overlap))
           else Inr msk)
       (\<lambda>msk'. bitwise_and buffer msk')"

text \<open>Lines 245-268 for the triangle \<open>srcPoints\<close> with destination \<open>dstPoints\<close>.\<close>

definition triangle_output ::
  "'aff opencv \<Rightarrow> mat \<Rightarrow> nat \<Rightarrow> mat \<Rightarrow> point list \<Rightarrow> point list \<Rightarrow> mat result" where
  "triangle_output lib srcm i dstm srcPoints dstPoints =
     bind (warpAffine lib srcm (getAffineTransform lib srcPoints dstPoints) (cols srcm) (rows srcm))
       (\<lambda>buffer.
          let msk = fillConvexPoly lib (zeros (rows srcm) (cols srcm) CV_8UC1) dstPoints 255
          in masked_output i dstm buffer msk)"

text \<open>
  Lines 223-269: the loop over \<open>validTriangles\<close> in steps of three, on the accumulated
  image \<open>dst.m()\<close> and \<open>mappedPoints\<close>. A list that does not end on a triple is indexed
  out of range.
\<close>

fun warp_triangles ::
  "'aff opencv \<Rightarrow> real \<Rightarrow> mat \<Rightarrow> mat2 \<Rightarrow> point \<Rightarrow> real \<Rightarrow> nat \<Rightarrow> point list \<Rightarrow>
   mat \<times> point list \<Rightarrow> (mat \<times> point list) result" where
  "warp_triangles lib scaleFactor srcm R mean nrm i (v0 # v1 # v2 # rest) (dstm, mappedPoints) =
     (let srcPoints = [v0, v1, v2];
          dstPoints = dstTriangle scaleFactor (cols srcm) (rows srcm) R mean nrm srcPoints
      in bind (triangle_output lib srcm i dstm srcPoints dstPoints)
           (\<lambda>output.
              bind (cv_add dstm output)
                (\<lambda>dstm'. warp_triangles lib scaleFactor srcm R mean nrm (i + 3) rest
                            (dstm', mappedPoints @ dstPoints))))"
| "warp_triangles lib scaleFactor srcm R mean nrm i [] acc = Inr acc"
| "warp_triangles lib scaleFactor srcm R mean nrm i vs acc = Inl IndexOutOfRange"

text \<open>
  The \<open>output\<close> matrices of the triangles the loop composites, in order (a trace of the
  loop above, used to say which triangle wrote a pixel).
\<close>

fun warp_outputs ::
  "'aff opencv \<Rightarrow> real \<Rightarrow> mat \<Rightarrow> mat2 \<Rightarrow> point \<Rightarrow> real \<Rightarrow> nat \<Rightarrow> point list \<Rightarrow> mat \<Rightarrow> mat list" where
  "warp_outputs lib scaleFactor srcm R mean nrm i (v0 # v1 # v2 # rest) dstm =
     (let srcPoints = [v0, v1, v2];
          dstPoints = dstTriangle scaleFactor (cols srcm) (rows srcm) R mean nrm srcPoints
      in case triangle_output lib srcm i dstm srcPoints dstPoints of
           Inl e \<Rightarrow> []
         | Inr output \<Rightarrow>
             (case cv_add dstm output of
                Inl e \<Rightarrow> []
              | Inr dstm' \<Rightarrow>
                  output # warp_outputs lib scaleFactor srcm R mean nrm (i + 3) rest dstm'))"
| "warp_outputs lib scaleFactor srcm R mean nrm i vs dstm = []"

text \<open>Lines 204-274: the branch \<open>if (warp)\<close>, from the record \<open>dst\<close> as it was passed in.\<close>

definition warp_branch ::
  "'aff opencv \<Rightarrow> real \<Rightarrow> template \<Rightarrow> template \<Rightarrow> point list \<Rightarrow> template result" where
  "warp_branch lib scaleFactor src dst validTriangles =
     bind (getFloatList ''ProcrustesStats'' (t_file src)) (\<lambda>procrustesStats.
     bind (qlist_at procrustesStats 0) (\<lambda>r00.
     bind (qlist_at procrustesStats 1) (\<lambda>r10.
     bind (qlist_at procrustesStats 2) (\<lambda>r11.
     bind (qlist_at procrustesStats 3) (\<lambda>r01.
     bind (qlist_at procrustesStats 4) (\<lambda>mean0.
     bind (qlist_at procrustesStats 5) (\<lambda>mean1.
     bind (qlist_at procrustesStats 6) (\<lambda>nrm.
     bind (warp_triangles lib scaleFactor (t_m src)
             \<lparr>m00 = r00, m01 = r01, m10 = r10, m11 = r11\<rparr> (mean0, mean1) nrm 0 validTriangles
             (zeros (rows (t_m src)) (cols (t_m src)) (mtype (t_m src)), []))
       (\<lambda>(dstm, mappedPoints).
     bind (boundingRect lib mappedPoints) (\<lambda>boundingBox.
       Inr (dst\<lparr>t_m := dstm, t_file := setRects [boundingBox] (t_file dst)\<rparr>)))))))))))"

text \<open>
  \<open>dst\<close> is the caller's output record, which only the early returns and the branch
  without warp overwrite with \<open>src\<close>.
\<close>

definition Delaunay_project ::
  "'aff opencv \<Rightarrow> real \<Rightarrow> bool \<Rightarrow> template \<Rightarrow> template \<Rightarrow> (string list \<times> template) result"
where
  "Delaunay_project lib scaleFactor warp src dst =
     (if points (t_file src) = [] \<or> rects (t_file src) = []
      then Inr ([''Delauney triangulation failed because points or rects are empty.''], src)
      else
        let c = cols (t_m src);
            r = rows (t_m src);
            pts = appendCorners (points (t_file src)) (last (rects (t_file src)))
        in bind (insert_points (toPoint lib) c r pts (Subdiv2D c r))
             (\<lambda>inserted.
                case inserted of
                  None \<Rightarrow>
                    Inr ([''Delauney triangulation failed because points lie on boundary.''], src)
                | Some subdiv \<Rightarrow>
                    let triangleList = getTriangleList lib subdiv;
                        validTriangles = filter_triangles c r triangleList []
                    in bind (if warp then warp_branch lib scaleFactor src dst validTriangles
                             else Inr src)
                         (\<lambda>dst'.
                            Inr ([], dst'\<lparr>t_file :=
                                       setPointList ''DelaunayTriangles'' validTriangles
                                         (t_file dst')\<rparr>))))"

subsection \<open>Notions used to state the properties\<close>

text \<open>A record ProcrustesTransform does not skip: it has points and a bounding region.\<close>

definition usable :: "template \<Rightarrow> bool" where
  "usable t \<longleftrightarrow> points (t_file t) \<noteq> [] \<and> rects (t_file t) \<noteq> []"

text \<open>The full point set of a usable record: landmarks, then the four corners.\<close>

definition fullPoints :: "template \<Rightarrow> point list" where
  "fullPoints t = appendCorners (points (t_file t)) (last (rects (t_file t)))"

text \<open>The insertion-time check of line 178, negated: the vertex lies inside the image.\<close>

definition inside_image :: "int \<Rightarrow> int \<Rightarrow> point \<Rightarrow> bool" where
  "inside_image c r v \<longleftrightarrow>
     0 \<le> fst v \<and> fst v < real_of_int c \<and> 0 \<le> snd v \<and> snd v < real_of_int r"

text \<open>
  The rotation \<open>R = U V\<^sup>T\<close> of line 108 for a record, and the rotated normalised point set
  \<open>srcMat * R\<close> of line 119; \<open>None\<close> where the product of line 107 is not defined.
\<close>

definition procrustesRotation ::
  "(mat2 \<Rightarrow> mat2 \<times> mat2) \<Rightarrow> point list \<Rightarrow> template \<Rightarrow> mat2 option" where
  "procrustesRotation svd meanShape src =
     (case crossCovariance (fst (normalizePoints (fullPoints src))) meanShape of
        Inl e \<Rightarrow> None
      | Inr M \<Rightarrow> Some (timesTranspose (fst (svd M)) (snd (svd M))))"

definition rotatedNormalized ::
  "(mat2 \<Rightarrow> mat2 \<times> mat2) \<Rightarrow> point list \<Rightarrow> template \<Rightarrow> point list option" where
  "rotatedNormalized svd meanShape src =
     map_option (\<lambda>R. map (\<lambda>p. rowTimes p R) (fst (normalizePoints (fullPoints src))))
       (procrustesRotation svd meanShape src)"

text \<open>
  The points the triangulation looks at: the landmarks and, where the record has a
  bounding region, its four corners.
\<close>

definition record_points :: "template \<Rightarrow> point list" where
  "record_points t = (if rects (t_file t) = [] then points (t_file t) else fullPoints t)"

text \<open>The subdivision of a record all of whose points were accepted (lines 174-184).\<close>

definition subdivision :: "'aff opencv \<Rightarrow> template \<Rightarrow> subdiv2D" where
  "subdivision lib src =
     \<lparr>sd_cols = cols (t_m src), sd_rows = rows (t_m src),
      sd_vertices = map (toPoint lib) (fullPoints src)\<rparr>"

text \<open>The list \<open>validTriangles\<close> of lines 189-202 for such a record.\<close>

definition validTriangles :: "'aff opencv \<Rightarrow> template \<Rightarrow> point list" where
  "validTriangles lib src =
     filter_triangles (cols (t_m src)) (rows (t_m src))
       (getTriangleList lib (subdivision lib src)) []"

text \<open>
  What the model asks of OpenCV. \<open>Subdiv2D\<close> starts from a triangle around the
  rectangle, with corners at three times the larger side; the triangles of
  \<open>getTriangleList\<close> have their vertices among the inserted points and these three
  outer vertices. \<open>fillConvexPoly\<close> with colour 255 and line type 8 leaves every pixel
  of a zero mask at 0 or at 255.
\<close>

definition outer_vertices :: "int \<Rightarrow> int \<Rightarrow> point list" where
  "outer_vertices c r =
     [(3 * real_of_int (max c r), 0), (0, 3 * real_of_int (max c r)),
      (- 3 * real_of_int (max c r), - 3 * real_of_int (max c r))]"

definition subdivision_triangles :: "'aff opencv \<Rightarrow> subdiv2D \<Rightarrow> bool" where
  "subdivision_triangles lib s \<longleftrightarrow>
     (\<forall>t\<in>set (getTriangleList lib s). \<forall>v\<in>set (triangle_vertices t).
        v \<in> set (sd_vertices s) \<or> v \<in> set (outer_vertices (sd_cols s) (sd_rows s)))"

definition binary_fill :: "'aff opencv \<Rightarrow> mat \<Rightarrow> bool" where
  "binary_fill lib srcm \<longleftrightarrow>
     (\<forall>pts a b. px (fillConvexPoly lib (zeros (rows srcm) (cols srcm) CV_8UC1) pts 255) a b = 0
              \<or> px (fillConvexPoly lib (zeros (rows srcm) (cols srcm) CV_8UC1) pts 255) a b = 255)"

subsection \<open>Example inputs\<close>

text \<open>
  A record with one landmark at the centre of its 6-by-8 bounding box, the mean shape
  trained from it alone, and a decomposition \<open>M = I M I\<close>, which is a singular value
  decomposition of the diagonal matrices with non-negative entries that these examples
  produce (singular values unsorted).
\<close>

definition svd_example :: "mat2 \<Rightarrow> mat2 \<times> mat2" where
  "svd_example M =
     (\<lparr>m00 = 1, m01 = 0, m10 = 0, m11 = 1\<rparr>, \<lparr>m00 = 1, m01 = 0, m10 = 0, m11 = 1\<rparr>)"

definition src_example :: template where
  "src_example =
     \<lparr>t_m = zeros 8 6 CV_8UC1,
      t_file = \<lparr>points = [(3, 4)],
                rects = [\<lparr>rx = 0, ry = 0, rwidth = 6, rheight = 8\<rparr>],
                metadata = Map.empty\<rparr>\<rparr>"

definition meanShape_example :: "point list" where
  "meanShape_example =
     [(0, 0), (- 3 / 10, - 2 / 5), (3 / 10, - 2 / 5), (- 3 / 10, 2 / 5), (3 / 10, 2 / 5)]"

text \<open>All five points of this record coincide: its centred norm is zero.\<close>

definition src_degenerate :: template where
  "src_degenerate =
     \<lparr>t_m = zeros 8 6 CV_8UC1,
      t_file = \<lparr>points = [(1, 1)],
                rects = [\<lparr>rx = 1, ry = 1, rwidth = 0, rheight = 0\<rparr>],
                metadata = Map.empty\<rparr>\<rparr>"

definition src_two_landmarks :: template where
  "src_two_landmarks =
     \<lparr>t_m = zeros 8 6 CV_8UC1,
      t_file = \<lparr>points = [(3, 4), (1, 1)],
                rects = [\<lparr>rx = 0, ry = 0, rwidth = 6, rheight = 8\<rparr>],
                metadata = Map.empty\<rparr>\<rparr>"

definition src_no_rects :: template where
  "src_no_rects =
     \<lparr>t_m = zeros 8 6 CV_8UC1,
      t_file = \<lparr>points = [(3, 4)], rects = [], metadata = Map.empty\<rparr>\<rparr>"

text \<open>
  An 8-by-8 image of constant grey 9, a record on it whose landmark and corners all lie
  inside the image, with alignment parameters that map every vertex to itself (identity
  rotation, centroid (4,4), norm 1, at scale factor 1). The stand-in library returns two
  triangles over the record's points and one that reaches an outer vertex; as the
  vertices are not moved its warp is the identity, and it fills the bounding box of a
  triangle. Its conversion to floats is exact, as it is on the small integers that are
  the coordinates of this record.

  The last record has a landmark at \<open>x = width\<close> after one whose \<open>x\<close> lies below the
  width by \<open>10\<^sup>-\<^sup>1\<^sup>0\<close>; \<open>lib_float32\<close> is the stand-in library with the conversion
  to floats as it is.
\<close>

definition fill_bounding_box :: "mat \<Rightarrow> point list \<Rightarrow> 8 word \<Rightarrow> mat" where
  "fill_bounding_box msk pts colour =
     msk\<lparr>px := (\<lambda>i j.
        if list_ex (\<lambda>p. fst p \<le> real_of_int j) pts \<and> list_ex (\<lambda>p. real_of_int j \<le> fst p) pts
           \<and> list_ex (\<lambda>p. snd p \<le> real_of_int i) pts \<and> list_ex (\<lambda>p. real_of_int i \<le> snd p) pts
        then colour else px msk i j)\<rparr>"

definition lib_example :: "unit opencv" where
  "lib_example =
     \<lparr>toPoint = (\<lambda>p. p),
      getTriangleList = (\<lambda>s. [(3, 4, 1, 1, 5, 1), (3, 4, 5, 1, 5, 7), (1, 1, 5, 1, 24, 0)]),
      getAffineTransform = (\<lambda>srcPoints dstPoints. ()),
      warpAffine = (\<lambda>srcm M c r. Inr srcm),
      fillConvexPoly = fill_bounding_box,
      boundingRect = (\<lambda>pts. Inr \<lparr>rx = 1, ry = 1, rwidth = 5, rheight = 7\<rparr>)\<rparr>"

definition img_example :: mat where
  "img_example = \<lparr>rows = 8, cols = 8, mtype = CV_8UC1, px = (\<lambda>i j. 9)\<rparr>"

definition src_mesh :: template where
  "src_mesh =
     \<lparr>t_m = img_example,
      t_file = \<lparr>points = [(3, 4)],
                rects = [\<lparr>rx = 1, ry = 1, rwidth = 4, rheight = 6\<rparr>],
                metadata = [''ProcrustesStats'' \<mapsto> FloatList [1, 0, 1, 0, 4, 4, 1]]\<rparr>\<rparr>"

definition lib_float32 :: "unit opencv" where
  "lib_float32 = lib_example\<lparr>toPoint := (\<lambda>p. (float32 (fst p), float32 (snd p)))\<rparr>"

definition src_rounding :: template where
  "src_rounding =
     \<lparr>t_m = img_example,
      t_file = \<lparr>points = [(79999999999 / 10000000000, 3), (8, 3)],
                rects = [\<lparr>rx = 1, ry = 1, rwidth = 4, rheight = 6\<rparr>],
                metadata = Map.empty\<rparr>\<rparr>"

definition dst_blank :: template where
  "dst_blank =
     \<lparr>t_m = zeros 0 0 CV_8UC1,
      t_file = \<lparr>points = [], rects = [], metadata = Map.empty\<rparr>\<rparr>"

definition identity2 :: mat2 where
  "identity2 = \<lparr>m00 = 1, m01 = 0, m10 = 0, m11 = 1\<rparr>"

definition triangles_example :: "point list" where
  "triangles_example = [(3, 4), (1, 1), (5, 1), (3, 4), (5, 1), (5, 7)]"

section \<open>Point normalisation\<close>

lemma sum_list_map_divide:
  fixes f :: "'a \<Rightarrow> real"
  shows "(\<Sum>x\<leftarrow>xs. f x / c) = (\<Sum>x\<leftarrow>xs. f x) / c"
  by (induction xs) (simp_all add: add_divide_distrib)

lemma sum_list_map_minus_const:
  fixes f :: "'a \<Rightarrow> real"
  shows "(\<Sum>x\<leftarrow>xs. f x - c) = (\<Sum>x\<leftarrow>xs. f x) - real (length xs) * c"
  by (induction xs) (simp_all add: algebra_simps)

lemma centered_sum_fst: "sum_list (map fst (centerPoints (cv_mean ps) ps)) = 0"
  by (cases "ps = []")
    (simp_all add: centerPoints_def cv_mean_def comp_def sum_list_map_minus_const)

lemma centered_sum_snd: "sum_list (map snd (centerPoints (cv_mean ps) ps)) = 0"
  by (cases "ps = []")
    (simp_all add: centerPoints_def cv_mean_def comp_def sum_list_map_minus_const)

lemma cv_mean_scalePoints:
  "cv_mean (scalePoints c ps) = (fst (cv_mean ps) / c, snd (cv_mean ps) / c)"
  by (simp add: cv_mean_def scalePoints_def comp_def sum_list_map_divide)

lemma cv_norm_scalePoints: "cv_norm (scalePoints c ps) = cv_norm ps / \<bar>c\<bar>"
proof -
  have "(\<Sum>p\<leftarrow>ps. fst p / c * (fst p / c) + snd p / c * (snd p / c))
        = (\<Sum>p\<leftarrow>ps. (fst p * fst p + snd p * snd p) / (c * c))"
    by (simp add: add_divide_distrib)
  also have "\<dots> = (\<Sum>p\<leftarrow>ps. fst p * fst p + snd p * snd p) / (c * c)"
    by (rule sum_list_map_divide)
  finally show ?thesis
    by (simp add: cv_norm_def scalePoints_def comp_def real_sqrt_divide real_sqrt_mult)
qed

lemma cv_norm_nonneg: "0 \<le> cv_norm ps"
  unfolding cv_norm_def
  by (intro real_sqrt_ge_zero sum_list_nonneg) auto

lemma sqrt_100: "sqrt 100 = 10"
  by (rule real_sqrt_unique) simp_all

text \<open>
  C7. For every point set whose centred norm is not zero, the normalised point set
  (centroid subtracted from every point, then every point divided by the L2 norm of the
  centred coordinates) has centroid (0,0) and L2 norm 1. In the exact arithmetic of the
  model the tolerance is zero.
\<close>

theorem normalized_centroid_and_norm:
  assumes "cv_norm (centerPoints (cv_mean ps) ps) \<noteq> 0"
  shows "cv_mean (fst (normalizePoints ps)) = (0, 0) \<and> cv_norm (fst (normalizePoints ps)) = 1"
proof -
  let ?c = "centerPoints (cv_mean ps) ps"
  have pos: "0 < cv_norm ?c"
    using assms cv_norm_nonneg [of ?c] by simp
  have "cv_mean ?c = (0, 0)"
    by (subst cv_mean_def) (simp add: centered_sum_fst centered_sum_snd)
  then have "cv_mean (scalePoints (cv_norm ?c) ?c) = (0, 0)"
    by (simp add: cv_mean_scalePoints)
  moreover have "cv_norm (scalePoints (cv_norm ?c) ?c) = 1"
    using pos by (simp add: cv_norm_scalePoints)
  ultimately show ?thesis
    by (simp add: normalizePoints_def Let_def)
qed

theorem normalized_centroid_and_norm_witness:
  "cv_norm (centerPoints (cv_mean [(3, 4), (0, 0), (6, 0), (0, 8), (6, 8)])
                         [(3, 4), (0, 0), (6, 0), (0, 8), (6, 8)]) \<noteq> 0
   \<and> cv_mean (fst (normalizePoints [(3, 4), (0, 0), (6, 0), (0, 8), (6, 8)])) = (0, 0)
   \<and> cv_norm (fst (normalizePoints [(3, 4), (0, 0), (6, 0), (0, 8), (6, 8)])) = 1"
proof -
  have h: "cv_norm (centerPoints (cv_mean [(3, 4), (0, 0), (6, 0), (0, 8), (6, 8)])
                                 [(3, 4), (0, 0), (6, 0), (0, 8), (6, 8)]) \<noteq> 0"
    by (simp add: cv_norm_def cv_mean_def centerPoints_def sqrt_100)
  show ?thesis
    using h normalized_centroid_and_norm [OF h] by simp
qed

section \<open>ProcrustesTransform::project\<close>

lemma appendPoints_eq: "appendPoints ps f = f\<lparr>points := points f @ ps\<rparr>"
  by (induction ps arbitrary: f) (simp_all add: appendPoint_def)

lemma length_normalizePoints: "length (fst (normalizePoints ps)) = length ps"
  by (simp add: normalizePoints_def Let_def scalePoints_def centerPoints_def)

lemma length_fullPoints: "length (fullPoints t) = length (points (t_file t)) + 4"
  by (simp add: fullPoints_def appendCorners_def)

lemma crossCovariance_cases:
  "crossCovariance a b = Inl e \<Longrightarrow> e = DimensionMismatch \<and> length a \<noteq> length b"
  by (auto simp add: crossCovariance_def split: if_splits)

lemma project_unusable:
  "\<not> usable src \<Longrightarrow>
   Procrustes_project svd warp meanShape src =
     Inr ([''Procrustes alignment failed because points or rects are empty.''], src)"
  by (auto simp add: Procrustes_project_def usable_def)

lemma project_usable:
  assumes "usable src"
    and "normalizePoints (fullPoints src) = (srcMat, mean, nrm)"
    and "crossCovariance srcMat meanShape = Inr M"
    and "svd M = (U, V)"
  shows "Procrustes_project svd warp meanShape src =
     Inr ([], src\<lparr>t_file := (t_file src)
                 \<lparr>points := points (t_file src) @
                    (if warp then map (\<lambda>p. rowTimes p (timesTranspose U V)) srcMat else []),
                  metadata := (metadata (t_file src))(''ProcrustesStats'' \<mapsto>
                    FloatList [m00 (timesTranspose U V), m10 (timesTranspose U V),
                               m11 (timesTranspose U V), m01 (timesTranspose U V),
                               fst mean, snd mean, nrm])\<rparr>\<rparr>)"
  using assms
  by (simp add: Procrustes_project_def usable_def fullPoints_def Let_def setFloatList_def
      appendPoints_eq)

lemma project_usable_error:
  assumes "usable src"
    and "crossCovariance (fst (normalizePoints (fullPoints src))) meanShape = Inl e"
  shows "Procrustes_project svd warp meanShape src = Inl e"
proof -
  obtain srcMat mean nrm where n: "normalizePoints (fullPoints src) = (srcMat, mean, nrm)"
    by (cases "normalizePoints (fullPoints src)") auto
  with assms show ?thesis
    by (simp add: Procrustes_project_def usable_def fullPoints_def)
qed

text \<open>The three ways a call of \<open>project\<close> ends.\<close>

lemma project_cases:
  obtains (skipped) "\<not> usable src"
      "Procrustes_project svd warp meanShape src =
         Inr ([''Procrustes alignment failed because points or rects are empty.''], src)"
  | (failed) e where "usable src"
      "crossCovariance (fst (normalizePoints (fullPoints src))) meanShape = Inl e"
      "Procrustes_project svd warp meanShape src = Inl e"
  | (aligned) srcMat mean nrm M U V where "usable src"
      "normalizePoints (fullPoints src) = (srcMat, mean, nrm)"
      "crossCovariance srcMat meanShape = Inr M"
      "svd M = (U, V)"
      "Procrustes_project svd warp meanShape src =
        Inr ([], src\<lparr>t_file := (t_file src)
                 \<lparr>points := points (t_file src) @
                    (if warp then map (\<lambda>p. rowTimes p (timesTranspose U V)) srcMat else []),
                  metadata := (metadata (t_file src))(''ProcrustesStats'' \<mapsto>
                    FloatList [m00 (timesTranspose U V), m10 (timesTranspose U V),
                               m11 (timesTranspose U V), m01 (timesTranspose U V),
                               fst mean, snd mean, nrm])\<rparr>\<rparr>)"
proof (cases "usable src")
  case False
  then show ?thesis using skipped project_unusable by blast
next
  case True
  obtain srcMat mean nrm where n: "normalizePoints (fullPoints src) = (srcMat, mean, nrm)"
    by (cases "normalizePoints (fullPoints src)") auto
  show ?thesis
  proof (cases "crossCovariance srcMat meanShape")
    case (Inl e)
    with True n show ?thesis
      using failed project_usable_error [where src=src and meanShape=meanShape and e=e]
      by simp
  next
    case (Inr M)
    obtain U V where "svd M = (U, V)" by (cases "svd M") auto
    with True n Inr show ?thesis using aligned project_usable by blast
  qed
qed

subsection \<open>The examples, evaluated\<close>

lemma fullPoints_example: "fullPoints src_example = [(3, 4), (0, 0), (6, 0), (0, 8), (6, 8)]"
  by (simp add: fullPoints_def src_example_def appendCorners_def topLeft_def topRight_def
      bottomLeft_def bottomRight_def)

lemma normalizePoints_example:
  "normalizePoints [(3, 4), (0, 0), (6, 0), (0, 8), (6, 8)] = (meanShape_example, (3, 4), 10)"
  by (simp add: normalizePoints_def cv_mean_def centerPoints_def cv_norm_def scalePoints_def
      sqrt_100 meanShape_example_def)

lemma usable_example: "usable src_example"
  by (simp add: usable_def src_example_def)

lemma length_meanShape_example: "length meanShape_example = 5"
  by (simp add: meanShape_example_def)

lemma crossCovariance_example:
  "crossCovariance meanShape_example meanShape_example =
     Inr \<lparr>m00 = 9 / 25, m01 = 0, m10 = 0, m11 = 16 / 25\<rparr>"
  by (simp add: crossCovariance_def meanShape_example_def)

lemma procrustesRotation_example:
  "procrustesRotation svd_example meanShape_example src_example =
     Some \<lparr>m00 = 1, m01 = 0, m10 = 0, m11 = 1\<rparr>"
  by (simp add: procrustesRotation_def fullPoints_example normalizePoints_example
      crossCovariance_example svd_example_def timesTranspose_def)

lemma rotatedNormalized_example:
  "rotatedNormalized svd_example meanShape_example src_example = Some meanShape_example"
  by (simp add: rotatedNormalized_def procrustesRotation_example fullPoints_example
      normalizePoints_example)
    (simp add: rowTimes_def meanShape_example_def)

lemma project_example:
  "Procrustes_project svd_example w meanShape_example src_example =
     Inr ([], src_example\<lparr>t_file := (t_file src_example)
            \<lparr>points := points (t_file src_example) @ (if w then meanShape_example else []),
             metadata := (metadata (t_file src_example))(''ProcrustesStats'' \<mapsto>
                        FloatList [1, 0, 1, 0, 3, 4, 10])\<rparr>\<rparr>)"
proof -
  have n: "normalizePoints (fullPoints src_example) = (meanShape_example, (3, 4), 10)"
    by (simp add: fullPoints_example normalizePoints_example)
  have s: "svd_example \<lparr>m00 = 9 / 25, m01 = 0, m10 = 0, m11 = 16 / 25\<rparr>
           = (\<lparr>m00 = 1, m01 = 0, m10 = 0, m11 = 1\<rparr>, \<lparr>m00 = 1, m01 = 0, m10 = 0, m11 = 1\<rparr>)"
    by (simp add: svd_example_def)
  show ?thesis
    by (subst project_usable [where svd=svd_example, OF usable_example n crossCovariance_example s])
      (simp add: timesTranspose_def rowTimes_def meanShape_example_def)
qed

lemma usable_degenerate: "usable src_degenerate"
  by (simp add: usable_def src_degenerate_def)

lemma fullPoints_degenerate:
  "fullPoints src_degenerate = [(1, 1), (1, 1), (1, 1), (1, 1), (1, 1)]"
  by (simp add: fullPoints_def src_degenerate_def appendCorners_def topLeft_def topRight_def
      bottomLeft_def bottomRight_def)

lemma norm_degenerate:
  "cv_norm (centerPoints (cv_mean (fullPoints src_degenerate)) (fullPoints src_degenerate)) = 0"
  by (simp add: fullPoints_degenerate cv_norm_def cv_mean_def centerPoints_def)

lemma project_degenerate:
  "isl (Procrustes_project svd_example w meanShape_example src_degenerate) = False
   \<and> fst (projr (Procrustes_project svd_example w meanShape_example src_degenerate)) = []"
proof -
  have n: "normalizePoints (fullPoints src_degenerate)
           = ([(0, 0), (0, 0), (0, 0), (0, 0), (0, 0)], (1, 1), 0)"
    by (simp add: fullPoints_degenerate normalizePoints_def cv_mean_def centerPoints_def
        cv_norm_def scalePoints_def)
  have c: "crossCovariance [(0, 0), (0, 0), (0, 0), (0, 0), (0, 0)] meanShape_example
           = Inr \<lparr>m00 = 0, m01 = 0, m10 = 0, m11 = 0\<rparr>"
    by (simp add: crossCovariance_def meanShape_example_def)
  have s: "svd_example \<lparr>m00 = 0, m01 = 0, m10 = 0, m11 = 0\<rparr>
           = (\<lparr>m00 = 1, m01 = 0, m10 = 0, m11 = 1\<rparr>, \<lparr>m00 = 1, m01 = 0, m10 = 0, m11 = 1\<rparr>)"
    by (simp add: svd_example_def)
  show ?thesis
    by (subst (1 2) project_usable [where svd=svd_example, OF usable_degenerate n c s]) simp
qed

subsection \<open>Alignment parameters\<close>

text \<open>
  C8. On every successful alignment (the call returns without a warning) the output
  record holds under the key "ProcrustesStats" exactly seven numbers, in the order
  R(0,0), R(1,0), R(1,1), R(0,1), mean_x, mean_y, norm, where R is the rotation obtained
  from the singular value decomposition, (mean_x, mean_y) the centroid of the full point
  set before normalisation and norm the L2 norm of the centred point set.
\<close>

theorem ProcrustesStats_layout:
  assumes "Procrustes_project svd warp meanShape src = Inr ([], dst)"
  shows "\<exists>R. procrustesRotation svd meanShape src = Some R \<and>
           metadata (t_file dst) ''ProcrustesStats'' =
             Some (FloatList
               [m00 R, m10 R, m11 R, m01 R,
                fst (cv_mean (fullPoints src)),
                snd (cv_mean (fullPoints src)),
                cv_norm (centerPoints (cv_mean (fullPoints src)) (fullPoints src))])"
proof (cases rule: project_cases [where src=src and svd=svd and warp=warp and meanShape=meanShape])
  case skipped
  with assms show ?thesis by simp
next
  case (failed e)
  with assms show ?thesis by simp
next
  case (aligned srcMat mean nrm M U V)
  from aligned(2) have "srcMat = fst (normalizePoints (fullPoints src))"
    "mean = cv_mean (fullPoints src)"
    "nrm = cv_norm (centerPoints (cv_mean (fullPoints src)) (fullPoints src))"
    by (auto simp add: normalizePoints_def Let_def)
  with aligned assms show ?thesis by (auto simp add: procrustesRotation_def)
qed

theorem ProcrustesStats_layout_witness:
  "Procrustes_project svd_example False meanShape_example src_example =
     Inr ([], src_example\<lparr>t_file := (t_file src_example)
            \<lparr>metadata := (metadata (t_file src_example))(''ProcrustesStats'' \<mapsto>
                        FloatList [1, 0, 1, 0, 3, 4, 10])\<rparr>\<rparr>)
   \<and> (\<exists>R. procrustesRotation svd_example meanShape_example src_example = Some R \<and>
           [1, 0, 1, 0, 3, 4, 10] =
               [m00 R, m10 R, m11 R, m01 R,
                fst (cv_mean (fullPoints src_example)),
                snd (cv_mean (fullPoints src_example)),
                cv_norm (centerPoints (cv_mean (fullPoints src_example))
                           (fullPoints src_example))])"
proof -
  have h: "Procrustes_project svd_example False meanShape_example src_example =
     Inr ([], src_example\<lparr>t_file := (t_file src_example)
            \<lparr>metadata := (metadata (t_file src_example))(''ProcrustesStats'' \<mapsto>
                        FloatList [1, 0, 1, 0, 3, 4, 10])\<rparr>\<rparr>)"
    by (simp add: project_example)
  show ?thesis
    using h ProcrustesStats_layout [OF h] by simp
qed

subsection \<open>Frame of the alignment\<close>

text \<open>
  C10. On every path on which the alignment returns a record (points or rects missing,
  warp enabled, warp disabled) the image of the output record is the image of the input
  record. Only metadata changes: the rects and every key other than "ProcrustesStats"
  are as in the input, and the points are the input's points followed by appended
  points, none when warp is disabled.
\<close>

theorem alignment_keeps_image:
  assumes "Procrustes_project svd warp meanShape src = Inr (ws, dst)"
  shows "t_m dst = t_m src \<and> rects (t_file dst) = rects (t_file src)
       \<and> (\<forall>key. key \<noteq> ''ProcrustesStats'' \<longrightarrow>
             metadata (t_file dst) key = metadata (t_file src) key)
       \<and> (\<exists>appended. points (t_file dst) = points (t_file src) @ appended
             \<and> (\<not> warp \<longrightarrow> appended = []))"
proof (cases rule: project_cases [where src=src and svd=svd and warp=warp and meanShape=meanShape])
  case skipped
  with assms show ?thesis by simp
next
  case (failed e)
  with assms show ?thesis by simp
next
  case (aligned srcMat mean nrm M U V)
  with assms show ?thesis by auto
qed

theorem alignment_keeps_image_witness:
  "Procrustes_project svd_example True meanShape_example src_example =
     Inr ([], src_example\<lparr>t_file := (t_file src_example)
            \<lparr>points := (3, 4) # meanShape_example,
             metadata := (metadata (t_file src_example))(''ProcrustesStats'' \<mapsto>
                        FloatList [1, 0, 1, 0, 3, 4, 10])\<rparr>\<rparr>)
   \<and> t_m (src_example\<lparr>t_file := (t_file src_example)
            \<lparr>points := (3, 4) # meanShape_example,
             metadata := (metadata (t_file src_example))(''ProcrustesStats'' \<mapsto>
                        FloatList [1, 0, 1, 0, 3, 4, 10])\<rparr>\<rparr>) = t_m src_example"
proof -
  have h: "Procrustes_project svd_example True meanShape_example src_example =
     Inr ([], src_example\<lparr>t_file := (t_file src_example)
            \<lparr>points := (3, 4) # meanShape_example,
             metadata := (metadata (t_file src_example))(''ProcrustesStats'' \<mapsto>
                        FloatList [1, 0, 1, 0, 3, 4, 10])\<rparr>\<rparr>)"
    by (simp add: project_example) (simp add: src_example_def)
  show ?thesis
    using h alignment_keeps_image [OF h] by simp
qed

subsection \<open>Points emitted with warp enabled\<close>

text \<open>
  C4, as the claim states it, fails: with warp enabled the landmark points of the output
  record are not the rotated normalised coordinates. For the example record they are
  the original landmark (3,4) followed by the five rotated normalised points.
\<close>

theorem rotated_points_replace_landmarks_counterexample:
  "Procrustes_project svd_example True meanShape_example src_example =
     Inr ([], src_example\<lparr>t_file := (t_file src_example)
            \<lparr>points := (3, 4) # meanShape_example,
             metadata := (metadata (t_file src_example))(''ProcrustesStats'' \<mapsto>
                        FloatList [1, 0, 1, 0, 3, 4, 10])\<rparr>\<rparr>)
   \<and> rotatedNormalized svd_example meanShape_example src_example = Some meanShape_example
   \<and> (3, 4) # meanShape_example \<noteq> meanShape_example"
  by (simp add: project_example rotatedNormalized_example) (simp add: src_example_def)

text \<open>
  C4, amended. When warping is enabled, a successful alignment appends the rotated
  normalised point set (the normalised full point set, landmarks and the four corners,
  multiplied by the rotation R) to the landmark points of the record: the points of the
  output record are the input's points followed by the rotated normalised coordinates.
\<close>

theorem alignment_appends_rotated_points:
  assumes "Procrustes_project svd True meanShape src = Inr ([], dst)"
  shows "\<exists>rotated. rotatedNormalized svd meanShape src = Some rotated \<and>
           points (t_file dst) = points (t_file src) @ rotated"
proof (cases rule: project_cases [where src=src and svd=svd and warp=True and meanShape=meanShape])
  case skipped
  with assms show ?thesis by simp
next
  case (failed e)
  with assms show ?thesis by simp
next
  case (aligned srcMat mean nrm M U V)
  from aligned(2) have "srcMat = fst (normalizePoints (fullPoints src))"
    by simp
  with aligned assms show ?thesis
    by (auto simp add: rotatedNormalized_def procrustesRotation_def)
qed

theorem alignment_appends_rotated_points_witness:
  "Procrustes_project svd_example True meanShape_example src_example =
     Inr ([], src_example\<lparr>t_file := (t_file src_example)
            \<lparr>points := (3, 4) # meanShape_example,
             metadata := (metadata (t_file src_example))(''ProcrustesStats'' \<mapsto>
                        FloatList [1, 0, 1, 0, 3, 4, 10])\<rparr>\<rparr>)
   \<and> (\<exists>rotated. rotatedNormalized svd_example meanShape_example src_example = Some rotated \<and>
           (3, 4) # meanShape_example = points (t_file src_example) @ rotated)"
proof -
  have h: "Procrustes_project svd_example True meanShape_example src_example =
     Inr ([], src_example\<lparr>t_file := (t_file src_example)
            \<lparr>points := (3, 4) # meanShape_example,
             metadata := (metadata (t_file src_example))(''ProcrustesStats'' \<mapsto>
                        FloatList [1, 0, 1, 0, 3, 4, 10])\<rparr>\<rparr>)"
    by (simp add: project_example) (simp add: src_example_def)
  show ?thesis
    using h alignment_appends_rotated_points [OF h] by simp
qed

section \<open>ProcrustesTransform::train\<close>

lemma train_collect_eq:
  "train_collect data acc =
     acc @ map (\<lambda>d. fst (normalizePoints (fullPoints d))) (filter usable data)"
  by (induction data arbitrary: acc) (auto simp add: usable_def fullPoints_def)

lemma sum_row_ok:
  "\<forall>s\<in>set ss. i < length s \<Longrightarrow> \<exists>v. sum_row ss i acc = Inr v"
  by (induction ss arbitrary: acc) (simp_all add: qlist_at_def)

lemma sum_row_error:
  "sum_row ss i acc = Inl e \<Longrightarrow> e = IndexOutOfRange"
  by (induction ss arbitrary: acc) (auto simp add: qlist_at_def split: if_splits)

lemma mean_row_ok:
  "\<forall>s\<in>set ss. i < length s \<Longrightarrow> \<exists>v. mean_row ss i = Inr v"
  using sum_row_ok [of ss i "(0, 0)"] by (auto simp add: mean_row_def)

lemma mean_row_error:
  "mean_row ss i = Inl e \<Longrightarrow> e = IndexOutOfRange"
  by (auto simp add: mean_row_def split: sum.splits dest: sum_row_error)

lemma mean_rows_ok:
  "\<forall>i\<in>set is. \<forall>s\<in>set ss. i < length s \<Longrightarrow>
   \<exists>ms. mean_rows ss is = Inr ms \<and> length ms = length is"
proof (induction "is")
  case Nil
  then show ?case by simp
next
  case (Cons i "is")
  from Cons.prems obtain v where "mean_row ss i = Inr v"
    using mean_row_ok [of ss i] by auto
  moreover from Cons obtain ms where "mean_rows ss is = Inr ms" "length ms = length is"
    by auto
  ultimately show ?case by simp
qed

lemma mean_rows_error:
  "mean_rows ss is = Inl e \<Longrightarrow> e = IndexOutOfRange"
  by (induction "is") (auto split: sum.splits dest: mean_row_error)

lemma train_not_usable:
  "\<not> (\<exists>d\<in>set data. usable d) \<Longrightarrow>
   Procrustes_train data = Inl (Fatal ''Unable to calculate normalized points'')"
  by (simp add: Procrustes_train_def train_collect_eq filter_empty_conv)

lemma train_usable:
  "\<exists>d\<in>set data. usable d \<Longrightarrow>
   Procrustes_train data =
     mean_rows (map (\<lambda>d. fst (normalizePoints (fullPoints d))) (filter usable data))
       [0 ..< length (points (t_file (hd (filter usable data)))) + 4]"
  by (auto simp add: Procrustes_train_def train_collect_eq filter_empty_conv Let_def hd_map
      length_normalizePoints length_fullPoints)

lemma train_never_other_fatal:
  "\<exists>d\<in>set data. usable d \<Longrightarrow> Procrustes_train data \<noteq> Inl (Fatal msg)"
proof
  assume u: "\<exists>d\<in>set data. usable d" and f: "Procrustes_train data = Inl (Fatal msg)"
  from f have "Fatal msg = IndexOutOfRange"
    unfolding train_usable [OF u] by (rule mean_rows_error)
  then show False by simp
qed

lemma upt_5: "[0 ..< 5] = [0, 1, 2, 3, 4]"
  by (simp add: upt_rec)

lemma upt_6: "[0 ..< 6] = [0, 1, 2, 3, 4, 5]"
  by (simp add: upt_rec)

lemma train_example: "Procrustes_train [src_no_rects, src_example] = Inr meanShape_example"
proof -
  have "\<not> usable src_no_rects"
    by (simp add: usable_def src_no_rects_def)
  then have "train_collect [src_no_rects, src_example] [] = [meanShape_example]"
    by (simp add: train_collect_eq usable_example fullPoints_example normalizePoints_example)
  then show ?thesis
    by (simp add: Procrustes_train_def meanShape_example_def upt_5 mean_row_def qlist_at_def)
qed

lemma train_degenerate: "isl (Procrustes_train [src_degenerate]) = False"
  by (simp add: Procrustes_train_def src_degenerate_def
      normalizePoints_def Let_def appendCorners_def scalePoints_def centerPoints_def
      upt_5 mean_row_def qlist_at_def)

subsection \<open>When training fails\<close>

text \<open>
  C6, as the claim states it, fails in its last part: one usable record does not
  suffice for training to succeed. The first record below is usable (two landmarks and
  a bounding region), the second has one landmark, and the mean of row 5 indexes the
  shorter shape out of range.
\<close>

theorem usable_record_suffices_counterexample:
  "usable src_two_landmarks \<and>
   Procrustes_train [src_two_landmarks, src_example] = Inl IndexOutOfRange"
  by (simp add: usable_def Procrustes_train_def src_two_landmarks_def src_example_def
      normalizePoints_def Let_def appendCorners_def scalePoints_def centerPoints_def
      upt_6 mean_row_def qlist_at_def)

text \<open>
  C6, amended. Training ends with the fatal error if and only if no training record
  has both a non-empty point list and at least one bounding region; records lacking
  points or rects are skipped (training on the usable records alone gives the same
  result); and when at least one record is usable and no usable record has fewer points
  than the first usable one (as the code assumes: all shapes contain the same number of
  points), training succeeds with a mean shape of one row per point of that record and
  four for the corners.
\<close>

theorem training_fatal_iff_no_usable_record:
  "((\<exists>msg. Procrustes_train data = Inl (Fatal msg)) \<longleftrightarrow> \<not> (\<exists>d\<in>set data. usable d))
   \<and> Procrustes_train data = Procrustes_train (filter usable data)
   \<and> ((\<exists>d\<in>set data. usable d)
        \<and> (\<forall>d\<in>set data. usable d \<longrightarrow>
               length (points (t_file (hd (filter usable data)))) \<le> length (points (t_file d)))
      \<longrightarrow> (\<exists>meanShape. Procrustes_train data = Inr meanShape
             \<and> length meanShape = length (points (t_file (hd (filter usable data)))) + 4))"
proof (intro conjI impI)
  show "(\<exists>msg. Procrustes_train data = Inl (Fatal msg)) \<longleftrightarrow> \<not> (\<exists>d\<in>set data. usable d)"
    using train_not_usable [of data] train_never_other_fatal [of data] by blast
next
  show "Procrustes_train data = Procrustes_train (filter usable data)"
    by (simp add: Procrustes_train_def train_collect_eq)
next
  let ?n = "length (points (t_file (hd (filter usable data))))"
  let ?ss = "map (\<lambda>d. fst (normalizePoints (fullPoints d))) (filter usable data)"
  assume a: "(\<exists>d\<in>set data. usable d)
        \<and> (\<forall>d\<in>set data. usable d \<longrightarrow> ?n \<le> length (points (t_file d)))"
  then have "\<forall>i\<in>set [0 ..< ?n + 4]. \<forall>s\<in>set ?ss. i < length s"
    by (auto simp add: length_normalizePoints length_fullPoints)
  from mean_rows_ok [OF this] obtain ms
    where "mean_rows ?ss [0 ..< ?n + 4] = Inr ms" "length ms = ?n + 4"
    by auto
  with a show "\<exists>meanShape. Procrustes_train data = Inr meanShape \<and> length meanShape = ?n + 4"
    by (simp add: train_usable)
qed

theorem training_fatal_iff_no_usable_record_witness:
  "usable src_example \<and> \<not> usable src_no_rects
   \<and> hd (filter usable [src_no_rects, src_example]) = src_example
   \<and> Procrustes_train [src_no_rects, src_example] = Inr meanShape_example
   \<and> length meanShape_example = length (points (t_file src_example)) + 4
   \<and> \<not> (\<exists>msg. Procrustes_train [src_no_rects, src_example] = Inl (Fatal msg))"
proof -
  have u: "\<not> usable src_no_rects"
    by (simp add: usable_def src_no_rects_def)
  have h: "(\<exists>d\<in>set [src_no_rects, src_example]. usable d)
   \<and> (\<forall>d\<in>set [src_no_rects, src_example]. usable d \<longrightarrow>
         length (points (t_file (hd (filter usable [src_no_rects, src_example]))))
           \<le> length (points (t_file d)))"
    using u usable_example by simp
  show ?thesis
    using h u usable_example train_example
      training_fatal_iff_no_usable_record [of "[src_no_rects, src_example]"]
    by auto
qed

subsection \<open>Degenerate point sets\<close>

text \<open>
  C1, as the claim states it, fails: for the record whose five points coincide the
  centred norm is zero, and neither the alignment nor the training reports anything.
  Both return a result, the alignment without a warning.
\<close>

theorem zero_norm_is_fatal_counterexample:
  "cv_norm (centerPoints (cv_mean (fullPoints src_degenerate)) (fullPoints src_degenerate)) = 0
   \<and> \<not> isl (Procrustes_project svd_example True meanShape_example src_degenerate)
   \<and> fst (projr (Procrustes_project svd_example True meanShape_example src_degenerate)) = []
   \<and> \<not> isl (Procrustes_train [src_degenerate])"
  by (simp add: norm_degenerate project_degenerate train_degenerate)

text \<open>
  C1, amended. Normalisation has no check of the norm. For a record with points and a
  bounding region whose centred norm is zero, the alignment (with a mean shape of as
  many rows as the full point set of the record has points: its landmarks and the four
  corners) returns without error or warning and stores seven alignment parameters; and
  a training set that contains such a record does not end with the fatal error.
\<close>

theorem degenerate_norm_not_reported:
  assumes "usable src"
    and "cv_norm (centerPoints (cv_mean (fullPoints src)) (fullPoints src)) = 0"
  shows "(length meanShape = length (fullPoints src) \<longrightarrow>
            (\<exists>dst stats. Procrustes_project svd warp meanShape src = Inr ([], dst)
               \<and> metadata (t_file dst) ''ProcrustesStats'' = Some (FloatList stats)
               \<and> length stats = 7))
       \<and> (src \<in> set data \<longrightarrow> (\<forall>msg. Procrustes_train data \<noteq> Inl (Fatal msg)))"
proof (intro conjI impI)
  assume len: "length meanShape = length (fullPoints src)"
  show "\<exists>dst stats. Procrustes_project svd warp meanShape src = Inr ([], dst)
               \<and> metadata (t_file dst) ''ProcrustesStats'' = Some (FloatList stats)
               \<and> length stats = 7"
  proof (cases rule: project_cases [where src=src and svd=svd and warp=warp and meanShape=meanShape])
    case skipped
    with assms show ?thesis by simp
  next
    case (failed e)
    from crossCovariance_cases [OF failed(2)] len show ?thesis
      by (simp add: length_normalizePoints)
  next
    case (aligned srcMat mean nrm M U V)
    from aligned(5) show ?thesis by simp
  qed
next
  assume "src \<in> set data"
  with assms(1) have "\<exists>d\<in>set data. usable d" by blast
  then show "\<forall>msg. Procrustes_train data \<noteq> Inl (Fatal msg)"
    using train_never_other_fatal by blast
qed

theorem degenerate_norm_not_reported_witness:
  "usable src_degenerate
   \<and> cv_norm (centerPoints (cv_mean (fullPoints src_degenerate)) (fullPoints src_degenerate)) = 0
   \<and> length meanShape_example = length (fullPoints src_degenerate)
   \<and> src_degenerate \<in> set [src_degenerate]
   \<and> (\<exists>dst stats.
         Procrustes_project svd_example True meanShape_example src_degenerate = Inr ([], dst)
         \<and> metadata (t_file dst) ''ProcrustesStats'' = Some (FloatList stats)
         \<and> length stats = 7)
   \<and> (\<forall>msg. Procrustes_train [src_degenerate] \<noteq> Inl (Fatal msg))"
proof -
  have len: "length meanShape_example = length (fullPoints src_degenerate)"
    by (simp add: length_meanShape_example fullPoints_degenerate)
  show ?thesis
    using degenerate_norm_not_reported [OF usable_degenerate norm_degenerate,
        of meanShape_example svd_example True "[src_degenerate]"] len
      usable_degenerate norm_degenerate
    by simp
qed

section \<open>The warp of DelaunayTransform::project\<close>

subsection \<open>One triangle at one pixel\<close>

lemma and_255: "(x :: 8 word) AND 255 = x"
proof -
  have e: "(255 :: 8 word) = - 1" by simp
  show ?thesis unfolding e by simp
qed

lemma saturate_add_zero_right: "saturate_add a 0 = a"
  using unsigned_less [of a, where 'a = nat] by (simp add: saturate_add_def)

lemma saturate_add_zero_left: "saturate_add 0 b = b"
  using unsigned_less [of b, where 'a = nat] by (simp add: saturate_add_def)

lemma bitwise_and_px:
  "bitwise_and a b = Inr out \<Longrightarrow> px out i j = px a i j AND px b i j"
  by (auto simp add: bitwise_and_def split: if_splits)

lemma cv_add_px:
  "cv_add a b = Inr out \<Longrightarrow> px out i j = saturate_add (px a i j) (px b i j)"
  by (auto simp add: cv_add_def split: if_splits)

lemma masked_output_px:
  assumes "masked_output i dstm buffer msk = Inr out"
  shows "px out a b =
           px buffer a b AND
             (if i > 0 \<and> px dstm a b AND px msk a b \<noteq> 0 then 0 else px msk a b)"
  using assms
  by (auto simp add: masked_output_def bind_def setTo_zero_where_def bitwise_and_def
      split: if_splits sum.splits)

text \<open>
  One pass of lines 258-268 at the pixel \<open>(a, b)\<close>: a pixel that is already non-zero is
  kept and the triangle contributes nothing to it; a pixel that is zero takes the
  triangle's contribution, which is zero or the pixel of the resampled buffer.
\<close>

lemma composite_step_px:
  assumes out: "masked_output i dstm buffer msk = Inr out"
    and add: "cv_add dstm out = Inr dstm'"
    and bin: "px msk a b = 0 \<or> px msk a b = 255"
    and first: "i = 0 \<longrightarrow> px dstm a b = 0"
  shows "(px dstm a b \<noteq> 0 \<longrightarrow> px out a b = 0 \<and> px dstm' a b = px dstm a b)
       \<and> (px dstm a b = 0 \<longrightarrow> px dstm' a b = px out a b)
       \<and> (px out a b = 0 \<or> px out a b = px buffer a b)"
  using bin first
  by (auto simp add: masked_output_px [OF out] cv_add_px [OF add] and_255
      saturate_add_zero_right saturate_add_zero_left)

lemma triangle_step_px:
  assumes bin: "binary_fill lib srcm"
    and out: "triangle_output lib srcm i dstm srcPoints dstPoints = Inr out"
    and add: "cv_add dstm out = Inr dstm'"
    and first: "i = 0 \<longrightarrow> px dstm a b = 0"
  shows "(px dstm a b \<noteq> 0 \<longrightarrow> px out a b = 0 \<and> px dstm' a b = px dstm a b)
       \<and> (px dstm a b = 0 \<longrightarrow> px dstm' a b = px out a b)"
proof -
  from out obtain buffer where
    m: "masked_output i dstm buffer
          (fillConvexPoly lib (zeros (rows srcm) (cols srcm) CV_8UC1) dstPoints 255) = Inr out"
    by (auto simp add: triangle_output_def bind_def Let_def split: sum.splits)
  from bin have
    "px (fillConvexPoly lib (zeros (rows srcm) (cols srcm) CV_8UC1) dstPoints 255) a b = 0
     \<or> px (fillConvexPoly lib (zeros (rows srcm) (cols srcm) CV_8UC1) dstPoints 255) a b = 255"
    by (simp add: binary_fill_def)
  from composite_step_px [OF m add this first] show ?thesis by blast
qed

subsection \<open>The loop\<close>

text \<open>
  The invariant of the loop at one pixel: the non-zero contributions of the remaining
  triangles, in order, are the final value alone if the pixel was zero and ends
  non-zero, and none otherwise.
\<close>

lemma warp_loop_invariant:
  "binary_fill lib srcm \<Longrightarrow>
     warp_triangles lib sf srcm R mean nrm i tris (D0, mp) = Inr (D, mp') \<Longrightarrow>
     (i = 0 \<longrightarrow> px D0 a b = 0) \<Longrightarrow>
     length (warp_outputs lib sf srcm R mean nrm i tris D0) = length tris div 3
     \<and> (px D0 a b \<noteq> 0 \<longrightarrow> px D a b = px D0 a b)
     \<and> filter (\<lambda>v. v \<noteq> 0) (map (\<lambda>out. px out a b) (warp_outputs lib sf srcm R mean nrm i tris D0))
         = (if px D0 a b = 0 \<and> px D a b \<noteq> 0 then [px D a b] else [])"
proof (induction lib sf srcm R mean nrm i tris D0 arbitrary: mp rule: warp_outputs.induct)
  case (1 lib sf srcm R mean nrm i v0 v1 v2 rest dstm)
  let ?dstPoints = "dstTriangle sf (cols srcm) (rows srcm) R mean nrm [v0, v1, v2]"
  from "1.prems"(2) obtain out dstm' where
    out: "triangle_output lib srcm i dstm [v0, v1, v2] ?dstPoints = Inr out"
    and add: "cv_add dstm out = Inr dstm'"
    and rest: "warp_triangles lib sf srcm R mean nrm (i + 3) rest (dstm', mp @ ?dstPoints)
               = Inr (D, mp')"
    by (auto simp add: bind_def Let_def split: sum.splits)
  note step = triangle_step_px [OF "1.prems"(1) out add "1.prems"(3)]
  have ih: "length (warp_outputs lib sf srcm R mean nrm (i + 3) rest dstm') = length rest div 3
     \<and> (px dstm' a b \<noteq> 0 \<longrightarrow> px D a b = px dstm' a b)
     \<and> filter (\<lambda>v. v \<noteq> 0)
          (map (\<lambda>out. px out a b) (warp_outputs lib sf srcm R mean nrm (i + 3) rest dstm'))
         = (if px dstm' a b = 0 \<and> px D a b \<noteq> 0 then [px D a b] else [])"
    using "1.IH" [OF refl refl out add "1.prems"(1) rest] by simp
  have outs: "warp_outputs lib sf srcm R mean nrm i (v0 # v1 # v2 # rest) dstm
              = out # warp_outputs lib sf srcm R mean nrm (i + 3) rest dstm'"
    using out add by (simp add: Let_def)
  show ?case
    unfolding outs using step ih by (cases "px dstm a b = 0") auto
qed simp_all

lemma filter_singleton_index:
  "filter P xs = [v] \<Longrightarrow>
   \<exists>k<length xs. xs ! k = v \<and> (\<forall>k'<length xs. k' \<noteq> k \<longrightarrow> \<not> P (xs ! k'))"
proof (induction xs)
  case Nil
  then show ?case by simp
next
  case (Cons x xs)
  show ?case
  proof (cases "P x")
    case True
    with Cons.prems have v: "x = v" and e: "filter P xs = []" by simp_all
    from e have "\<forall>k<length xs. \<not> P (xs ! k)"
      by (simp add: filter_empty_conv)
    then have "\<forall>k'<length (x # xs). k' \<noteq> 0 \<longrightarrow> \<not> P ((x # xs) ! k')"
      by (auto simp add: nth_Cons split: nat.splits)
    with v show ?thesis by (intro exI [of _ 0]) simp
  next
    case False
    with Cons obtain k where k: "k < length xs" "xs ! k = v"
      "\<forall>k'<length xs. k' \<noteq> k \<longrightarrow> \<not> P (xs ! k')"
      by auto
    from k(3) False have "\<forall>k'<length (x # xs). k' \<noteq> Suc k \<longrightarrow> \<not> P ((x # xs) ! k')"
      by (auto simp add: nth_Cons split: nat.splits)
    with k(1,2) show ?thesis by (intro exI [of _ "Suc k"]) simp
  qed
qed

subsection \<open>The example warp, evaluated\<close>

lemma binary_fill_example: "binary_fill lib_example img_example"
  by (simp add: binary_fill_def lib_example_def fill_bounding_box_def zeros_def)

lemmas example_defs =
  triangles_example_def lib_example_def img_example_def identity2_def
  dstTriangle_def rowTimes_def triangle_output_def masked_output_def bind_def
  bitwise_and_def same_shape_def setTo_zero_where_def cv_add_def zeros_def
  fill_bounding_box_def Let_def

lemma run_example:
  "isl (warp_triangles lib_example 1 img_example identity2 (4, 4) 1 0 triangles_example
          (zeros 8 8 CV_8UC1, [])) = False"
  by (simp add: example_defs)

lemma run_example_px:
  "px (fst (projr (warp_triangles lib_example 1 img_example identity2 (4, 4) 1 0 triangles_example
          (zeros 8 8 CV_8UC1, [])))) 2 4 = 9"
  by (simp add: example_defs saturate_add_def)

lemma outputs_example_px:
  "map (\<lambda>out. px out 2 4)
     (warp_outputs lib_example 1 img_example identity2 (4, 4) 1 0 triangles_example
          (zeros 8 8 CV_8UC1)) = [9, 0]"
  by (simp add: example_defs saturate_add_def)

subsection \<open>First writer wins\<close>

text \<open>
  C2. After the warp has composited all triangles in the order of the triangle list
  (from the zero image, as line 205 sets it up), every pixel of the output image that is
  non-zero received its value from exactly one triangle: one triangle's \<open>output\<close> has
  that value at the pixel and the \<open>output\<close> of every other triangle, earlier or later,
  is zero there, so no later triangle overwrites the pixel and no pixel is a sum of two
  triangles. There is one \<open>output\<close> for each vertex triple. The masks are those of
  \<open>fillConvexPoly\<close> with colour 255, whose pixels are 0 or 255. The triangle that
  wins a pixel is the first one that writes a non-zero value to it.
\<close>

theorem first_writer_wins:
  assumes "binary_fill lib srcm"
    and "warp_triangles lib sf srcm R mean nrm 0 tris (zeros r c ty, []) = Inr (D, mapped)"
    and "px D a b \<noteq> 0"
  shows "length (warp_outputs lib sf srcm R mean nrm 0 tris (zeros r c ty)) = length tris div 3
       \<and> (\<exists>k<length (warp_outputs lib sf srcm R mean nrm 0 tris (zeros r c ty)).
             px (warp_outputs lib sf srcm R mean nrm 0 tris (zeros r c ty) ! k) a b = px D a b
             \<and> (\<forall>k'<length (warp_outputs lib sf srcm R mean nrm 0 tris (zeros r c ty)).
                   k' \<noteq> k \<longrightarrow>
                   px (warp_outputs lib sf srcm R mean nrm 0 tris (zeros r c ty) ! k') a b = 0))"
proof -
  let ?outs = "warp_outputs lib sf srcm R mean nrm 0 tris (zeros r c ty)"
  have z: "0 = (0::nat) \<longrightarrow> px (zeros r c ty) a b = 0"
    by (simp add: zeros_def)
  from warp_loop_invariant [OF assms(1) assms(2) z] assms(3)
  have len: "length ?outs = length tris div 3"
    and f: "filter (\<lambda>v. v \<noteq> 0) (map (\<lambda>out. px out a b) ?outs) = [px D a b]"
    by (simp_all add: zeros_def)
  from filter_singleton_index [OF f] len show ?thesis
    by auto
qed

theorem first_writer_wins_witness:
  "binary_fill lib_example img_example
   \<and> \<not> isl (warp_triangles lib_example 1 img_example identity2 (4, 4) 1 0 triangles_example
              (zeros 8 8 CV_8UC1, []))
   \<and> px (fst (projr (warp_triangles lib_example 1 img_example identity2 (4, 4) 1 0
                       triangles_example (zeros 8 8 CV_8UC1, [])))) 2 4 = 9
   \<and> map (\<lambda>out. px out 2 4)
        (warp_outputs lib_example 1 img_example identity2 (4, 4) 1 0 triangles_example
           (zeros 8 8 CV_8UC1)) = [9, 0]
   \<and> length (warp_outputs lib_example 1 img_example identity2 (4, 4) 1 0 triangles_example
           (zeros 8 8 CV_8UC1)) = length triangles_example div 3"
proof -
  obtain D mapped where run:
    "warp_triangles lib_example 1 img_example identity2 (4, 4) 1 0 triangles_example
       (zeros 8 8 CV_8UC1, []) = Inr (D, mapped)"
    using run_example
    by (cases "warp_triangles lib_example 1 img_example identity2 (4, 4) 1 0 triangles_example
       (zeros 8 8 CV_8UC1, [])") auto
  have nz: "px D 2 4 \<noteq> 0"
    using run_example_px run by simp
  from first_writer_wins [OF binary_fill_example run nz]
  show ?thesis
    using binary_fill_example run_example run_example_px outputs_example_px by simp
qed

section \<open>The mesh of DelaunayTransform::project\<close>

subsection \<open>Inserting the points (lines 177-184)\<close>

text \<open>
  How the loop ends: with the subdivision of the converted points, when every point
  passes the check of line 178 and every converted point lies in the rectangle of the
  subdivision; with the early return, at a point that fails the check; or with the
  exception of \<open>Subdiv2D::insert\<close>, at a point that passes the check and whose conversion
  lies outside the rectangle.
\<close>

lemma insert_points_result:
  "sd_cols s = c \<Longrightarrow> sd_rows s = r \<Longrightarrow>
   (case insert_points conv c r ps s of
      Inl e \<Rightarrow> e = CvError ''Subdiv2D: point out of range''
               \<and> (\<exists>p\<in>set ps. inside_image c r p \<and> \<not> inside_image c r (conv p))
    | Inr None \<Rightarrow> (\<exists>p\<in>set ps. \<not> inside_image c r p)
    | Inr (Some s') \<Rightarrow>
        list_all (inside_image c r) ps \<and> list_all (inside_image c r) (map conv ps)
        \<and> s' = s\<lparr>sd_vertices := sd_vertices s @ map conv ps\<rparr>)"
proof (induction ps arbitrary: s)
  case Nil
  then show ?case by simp
next
  case (Cons p ps)
  show ?case
  proof (cases "inside_image c r p")
    case False
    then show ?thesis by (auto simp add: inside_image_def)
  next
    case True
    then have g: "\<not> (fst p < 0 \<or> snd p < 0 \<or> snd p \<ge> real_of_int r \<or> fst p \<ge> real_of_int c)"
      by (auto simp add: inside_image_def)
    show ?thesis
    proof (cases "inside_image c r (conv p)")
      case False
      with Cons.prems have "subdiv_insert (conv p) s = Inl (CvError ''Subdiv2D: point out of range'')"
        by (auto simp add: subdiv_insert_def inside_image_def)
      with g True False show ?thesis by (simp add: bind_def)
    next
      case conv: True
      let ?s = "s\<lparr>sd_vertices := sd_vertices s @ [conv p]\<rparr>"
      from conv Cons.prems have i: "subdiv_insert (conv p) s = Inr ?s"
        by (auto simp add: subdiv_insert_def inside_image_def)
      have "sd_cols ?s = c" "sd_rows ?s = r"
        using Cons.prems by simp_all
      from Cons.IH [OF this] g i True conv show ?thesis
        by (auto simp add: bind_def split: sum.splits option.splits)
    qed
  qed
qed

subsection \<open>Filtering the triangles (lines 189-202)\<close>

lemma length_triangle_vertices: "length (triangle_vertices t) = 3"
  by (cases t) simp

lemma filter_triangles_eq:
  "filter_triangles c r ts acc =
     acc @ concat (map triangle_vertices
                    (filter (\<lambda>t. \<not> list_ex (outside_matrix c r) (triangle_vertices t)) ts))"
  by (induction ts arbitrary: acc) (simp_all add: Let_def)

lemma length_filter_triangles: "3 dvd length (filter_triangles c r ts [])"
proof -
  have "3 dvd length (concat (map triangle_vertices ts'))" for ts' :: "vec6f list"
    by (induction ts') (simp_all add: length_triangle_vertices)
  then show ?thesis by (simp add: filter_triangles_eq)
qed

lemma set_filter_triangles:
  "v \<in> set (filter_triangles c r ts []) \<Longrightarrow>
   \<exists>t\<in>set ts. v \<in> set (triangle_vertices t) \<and> \<not> outside_matrix c r v"
proof -
  assume "v \<in> set (filter_triangles c r ts [])"
  then obtain t where t: "t \<in> set ts" "\<not> list_ex (outside_matrix c r) (triangle_vertices t)"
    "v \<in> set (triangle_vertices t)"
    by (auto simp add: filter_triangles_eq)
  from t(2,3) have "\<not> outside_matrix c r v"
    by (auto simp add: list_ex_iff)
  with t(1,3) show ?thesis by blast
qed

lemma outer_vertices_outside:
  assumes "0 < c" and "v \<in> set (outer_vertices c r)"
  shows "outside_matrix c r v"
proof -
  from assms(1) have "0 < max c r" by simp
  then have "real_of_int c < 3 * real_of_int (max c r)" "real_of_int r < 3 * real_of_int (max c r)"
    by linarith+
  moreover from \<open>0 < max c r\<close> have "- 3 * real_of_int (max c r) < 0" by simp
  ultimately show ?thesis
    using assms(2) by (auto simp add: outer_vertices_def outside_matrix_def)
qed

subsection \<open>The four ways the mesh ends\<close>

lemma Delaunay_cases:
  obtains (empty) "\<not> usable src"
      "Delaunay_project lib sf warp src dst =
         Inr ([''Delauney triangulation failed because points or rects are empty.''], src)"
  | (boundary) "usable src"
      "\<exists>p\<in>set (fullPoints src). \<not> inside_image (cols (t_m src)) (rows (t_m src)) p"
      "Delaunay_project lib sf warp src dst =
         Inr ([''Delauney triangulation failed because points lie on boundary.''], src)"
  | (raised) "usable src"
      "\<exists>p\<in>set (fullPoints src). inside_image (cols (t_m src)) (rows (t_m src)) p
         \<and> \<not> inside_image (cols (t_m src)) (rows (t_m src)) (toPoint lib p)"
      "Delaunay_project lib sf warp src dst = Inl (CvError ''Subdiv2D: point out of range'')"
  | (meshed) "usable src"
      "list_all (inside_image (cols (t_m src)) (rows (t_m src))) (fullPoints src)"
      "list_all (inside_image (cols (t_m src)) (rows (t_m src)))
         (map (toPoint lib) (fullPoints src))"
      "Delaunay_project lib sf warp src dst =
         bind (if warp then warp_branch lib sf src dst (validTriangles lib src) else Inr src)
           (\<lambda>dst'. Inr ([], dst'\<lparr>t_file :=
                      setPointList ''DelaunayTriangles'' (validTriangles lib src) (t_file dst')\<rparr>))"
proof (cases "usable src")
  case False
  then have "Delaunay_project lib sf warp src dst =
         Inr ([''Delauney triangulation failed because points or rects are empty.''], src)"
    by (auto simp add: Delaunay_project_def usable_def)
  with False show ?thesis by (rule empty)
next
  case True
  let ?c = "cols (t_m src)" and ?r = "rows (t_m src)"
  let ?ins = "insert_points (toPoint lib) ?c ?r (fullPoints src) (Subdiv2D ?c ?r)"
  have res: "case ?ins of
      Inl e \<Rightarrow> e = CvError ''Subdiv2D: point out of range''
               \<and> (\<exists>p\<in>set (fullPoints src). inside_image ?c ?r p
                      \<and> \<not> inside_image ?c ?r (toPoint lib p))
    | Inr None \<Rightarrow> (\<exists>p\<in>set (fullPoints src). \<not> inside_image ?c ?r p)
    | Inr (Some s') \<Rightarrow>
        list_all (inside_image ?c ?r) (fullPoints src)
        \<and> list_all (inside_image ?c ?r) (map (toPoint lib) (fullPoints src))
        \<and> s' = (Subdiv2D ?c ?r)\<lparr>sd_vertices :=
                   sd_vertices (Subdiv2D ?c ?r) @ map (toPoint lib) (fullPoints src)\<rparr>"
    by (rule insert_points_result) (simp_all add: Subdiv2D_def)
  have run: "Delaunay_project lib sf warp src dst =
      bind ?ins
        (\<lambda>inserted.
           case inserted of
             None \<Rightarrow>
               Inr ([''Delauney triangulation failed because points lie on boundary.''], src)
           | Some subdiv \<Rightarrow>
               bind (if warp
                     then warp_branch lib sf src dst
                            (filter_triangles ?c ?r (getTriangleList lib subdiv) [])
                     else Inr src)
                 (\<lambda>dst'.
                    Inr ([], dst'\<lparr>t_file :=
                               setPointList ''DelaunayTriangles''
                                 (filter_triangles ?c ?r (getTriangleList lib subdiv) [])
                                 (t_file dst')\<rparr>)))"
    using True by (simp add: Delaunay_project_def usable_def fullPoints_def Let_def)
  show ?thesis
  proof (cases ?ins)
    case (Inl e)
    with res run True show ?thesis
      by (intro raised) (simp_all add: bind_def)
  next
    case (Inr inserted)
    show ?thesis
    proof (cases inserted)
      case None
      with Inr res run True show ?thesis
        by (intro boundary) (simp_all add: bind_def)
    next
      case (Some s')
      with Inr res have s': "s' = subdivision lib src"
        by (simp add: subdivision_def Subdiv2D_def)
      from Some Inr res run True show ?thesis
        by (intro meshed) (simp_all add: bind_def s' validTriangles_def)
    qed
  qed
qed

text \<open>With warp enabled the image of the output record is the image the loop ends with.\<close>

lemma Delaunay_warp_image:
  assumes "Delaunay_project lib sf True src dst = Inr ([], dst')"
  shows "\<exists>R mean nrm mapped.
           warp_triangles lib sf (t_m src) R mean nrm 0 (validTriangles lib src)
             (zeros (rows (t_m src)) (cols (t_m src)) (mtype (t_m src)), [])
           = Inr (t_m dst', mapped)"
proof (cases rule: Delaunay_cases [where src=src and lib=lib and sf=sf and warp=True and dst=dst])
  case empty
  with assms show ?thesis by simp
next
  case boundary
  with assms show ?thesis by simp
next
  case raised
  with assms show ?thesis by simp
next
  case meshed
  with assms obtain d where d: "warp_branch lib sf src dst (validTriangles lib src) = Inr d"
    and "t_m dst' = t_m d"
    by (auto simp add: bind_def split: sum.splits)
  then show ?thesis
    by (fastforce simp add: warp_branch_def bind_def split: sum.splits prod.splits)
qed

subsection \<open>The example records, evaluated\<close>

lemma fullPoints_mesh: "fullPoints src_mesh = [(3, 4), (1, 1), (5, 1), (1, 7), (5, 7)]"
  by (simp add: fullPoints_def src_mesh_def appendCorners_def topLeft_def topRight_def
      bottomLeft_def bottomRight_def)

lemma usable_mesh: "usable src_mesh"
  by (simp add: usable_def src_mesh_def)

lemma extent_mesh: "cols (t_m src_mesh) = 8" "rows (t_m src_mesh) = 8"
  by (simp_all add: src_mesh_def img_example_def)

lemma inside_mesh:
  "list_all (inside_image (cols (t_m src_mesh)) (rows (t_m src_mesh))) (fullPoints src_mesh)"
  by (simp add: fullPoints_mesh inside_image_def extent_mesh)

lemma validTriangles_example: "validTriangles lib_example src_mesh = triangles_example"
  by (simp add: validTriangles_def lib_example_def src_mesh_def img_example_def
      outside_matrix_def triangles_example_def Let_def)

lemma toPoint_example: "toPoint lib_example p = p"
  by (simp add: lib_example_def)

lemma subdivision_triangles_example:
  "subdivision_triangles lib_example (subdivision lib_example src_mesh)"
  by (simp add: subdivision_triangles_def subdivision_def fullPoints_mesh lib_example_def
      outer_vertices_def extent_mesh)

lemma Delaunay_example_nowarp:
  "Delaunay_project lib_example 1 False src_mesh dst_blank =
     Inr ([], src_mesh\<lparr>t_file :=
                setPointList ''DelaunayTriangles'' triangles_example (t_file src_mesh)\<rparr>)"
proof (cases rule: Delaunay_cases
    [where src=src_mesh and lib=lib_example and sf=1 and warp=False and dst=dst_blank])
  case empty
  with usable_mesh show ?thesis by simp
next
  case boundary
  with inside_mesh show ?thesis by (simp add: list_all_iff)
next
  case raised
  then show ?thesis by (simp add: toPoint_example)
next
  case meshed
  then show ?thesis by (simp add: bind_def validTriangles_example)
qed

lemma warp_branch_example:
  "isl (warp_branch lib_example 1 src_mesh dst_blank triangles_example) = False"
proof -
  obtain D mapped where run:
    "warp_triangles lib_example 1 img_example identity2 (4, 4) 1 0 triangles_example
       (zeros 8 8 CV_8UC1, []) = Inr (D, mapped)"
    using run_example
    by (cases "warp_triangles lib_example 1 img_example identity2 (4, 4) 1 0 triangles_example
       (zeros 8 8 CV_8UC1, [])") auto
  have "warp_branch lib_example 1 src_mesh dst_blank triangles_example =
          bind (warp_triangles lib_example 1 img_example identity2 (4, 4) 1 0 triangles_example
                  (zeros 8 8 CV_8UC1, []))
            (\<lambda>(dstm, mappedPoints).
               bind (boundingRect lib_example mappedPoints) (\<lambda>boundingBox.
                 Inr (dst_blank\<lparr>t_m := dstm,
                        t_file := setRects [boundingBox] (t_file dst_blank)\<rparr>)))"
    by (simp add: warp_branch_def src_mesh_def getFloatList_def qlist_at_def bind_def
        identity2_def img_example_def)
  with run show ?thesis
    by (simp add: bind_def lib_example_def)
qed

lemma Delaunay_example_warp:
  "isl (Delaunay_project lib_example 1 True src_mesh dst_blank) = False
   \<and> fst (projr (Delaunay_project lib_example 1 True src_mesh dst_blank)) = []"
proof (cases rule: Delaunay_cases
    [where src=src_mesh and lib=lib_example and sf=1 and warp=True and dst=dst_blank])
  case empty
  with usable_mesh show ?thesis by simp
next
  case boundary
  with inside_mesh show ?thesis by (simp add: list_all_iff)
next
  case raised
  then show ?thesis by (simp add: toPoint_example)
next
  case meshed
  obtain d where "warp_branch lib_example 1 src_mesh dst_blank triangles_example = Inr d"
    using warp_branch_example
    by (cases "warp_branch lib_example 1 src_mesh dst_blank triangles_example") auto
  with meshed(4) show ?thesis
    by (simp add: bind_def validTriangles_example)
qed

subsection \<open>Points outside the image\<close>

text \<open>
  When the conversion to floats keeps every point that passed the check of line 178
  inside the image, a record with a point outside the image is returned unchanged with
  one warning: the warning of line 180 when the record has points and a bounding region,
  the warning of line 161 otherwise.
\<close>

lemma out_of_range_point_returns_original:
  assumes "p \<in> set (record_points src)"
    and "fst p < 0 \<or> snd p < 0 \<or> fst p \<ge> real_of_int (cols (t_m src))
         \<or> snd p \<ge> real_of_int (rows (t_m src))"
    and "\<forall>q\<in>set (fullPoints src).
           inside_image (cols (t_m src)) (rows (t_m src)) q \<longrightarrow>
           inside_image (cols (t_m src)) (rows (t_m src)) (toPoint lib q)"
  shows "Delaunay_project lib sf warp src dst =
           Inr ([if usable src
                 then ''Delauney triangulation failed because points lie on boundary.''
                 else ''Delauney triangulation failed because points or rects are empty.''],
                src)"
proof (cases rule: Delaunay_cases [where src=src and lib=lib and sf=sf and warp=warp and dst=dst])
  case empty
  then show ?thesis by simp
next
  case boundary
  then show ?thesis by simp
next
  case raised
  with assms(3) show ?thesis by blast
next
  case meshed
  from meshed(1) assms(1) have "p \<in> set (fullPoints src)"
    by (simp add: record_points_def usable_def)
  with meshed(2) have "inside_image (cols (t_m src)) (rows (t_m src)) p"
    by (simp add: list_all_iff)
  with assms(2) show ?thesis
    by (auto simp add: inside_image_def)
qed

text \<open>The conversion to floats of the coordinates of \<open>src_rounding\<close>.\<close>

lemma floor_log2_between:
  assumes "2 ^ k \<le> x" "x < 2 ^ Suc k"
  shows "\<lfloor>log 2 x\<rfloor> = int k"
proof -
  have "(0::real) < 2 ^ k" by simp
  with assms(1) have "0 < x" by linarith
  moreover have "(2::real) powr real_of_int (int k) \<le> x"
    using assms(1) by (simp add: powr_realpow)
  moreover have "x < (2::real) powr real_of_int (int k + 1)"
    using assms(2) by (simp add: powr_realpow powr_add)
  ultimately show ?thesis
    by (simp add: floor_log_eq_powr_iff)
qed

lemma float32_below_8: "float32 (79999999999 / 10000000000) = 8"
proof -
  have "\<lfloor>log 2 (79999999999 / 10000000000 :: real)\<rfloor> = int 2"
    by (rule floor_log2_between) simp_all
  then have e: "\<lfloor>log 2 \<bar>79999999999 / 10000000000 :: real\<bar>\<rfloor> = 2"
    by simp
  have u: "(2::real) powi (max (- 126) 2 - 23) = 1 / 2097152"
    by (simp add: power_int_minus)
  have f: "\<lfloor>79999999999 / 10000000000 / (1 / 2097152) :: real\<rfloor> = 16777215"
    by (simp add: floor_eq_iff)
  have r: "round_half_even (79999999999 / 10000000000 / (1 / 2097152)) = 16777216"
    unfolding round_half_even_def f by (simp add: Let_def)
  have "float32 (79999999999 / 10000000000)
        = real_of_int (round_half_even (79999999999 / 10000000000 / (1 / 2097152)))
          * (1 / 2097152)"
    unfolding float32_def e Let_def u by simp
  then show ?thesis
    unfolding r by simp
qed

lemma float32_3: "float32 3 = 3"
proof -
  have "\<lfloor>log 2 (3 :: real)\<rfloor> = int 1"
    by (rule floor_log2_between) simp_all
  then have e: "\<lfloor>log 2 \<bar>3 :: real\<bar>\<rfloor> = 1"
    by simp
  have u: "(2::real) powi (max (- 126) 1 - 23) = 1 / 4194304"
    by (simp add: power_int_minus)
  have r: "round_half_even (3 / (1 / 4194304)) = 12582912"
    by (simp add: round_half_even_def Let_def)
  have "float32 3 = real_of_int (round_half_even (3 / (1 / 4194304))) * (1 / 4194304)"
    unfolding float32_def e Let_def u by simp
  then show ?thesis
    unfolding r by simp
qed

lemma fullPoints_rounding:
  "fullPoints src_rounding =
     [(79999999999 / 10000000000, 3), (8, 3), (1, 1), (5, 1), (1, 7), (5, 7)]"
  by (simp add: fullPoints_def src_rounding_def appendCorners_def topLeft_def topRight_def
      bottomLeft_def bottomRight_def)

lemma extent_rounding: "cols (t_m src_rounding) = 8" "rows (t_m src_rounding) = 8"
  by (simp_all add: src_rounding_def img_example_def)

lemma insert_points_rounding:
  "insert_points (toPoint lib_float32) 8 8 (fullPoints src_rounding) (Subdiv2D 8 8)
     = Inl (CvError ''Subdiv2D: point out of range'')"
  by (simp add: fullPoints_rounding lib_float32_def lib_example_def float32_below_8 float32_3
      subdiv_insert_def Subdiv2D_def bind_def)

text \<open>
  C5 does not hold of the code. The record \<open>src_rounding\<close> on the 8-by-8 image contains
  the landmark (8,3), with x = width, so the claim has it returned unchanged with a
  warning and nothing raised. Its first landmark, at x = 7.9999999999, passes the check
  of line 178, which reads the double; line 183 inserts its conversion to floats, which
  is (8,3); and \<open>Subdiv2D::insert\<close> raises, before the landmark (8,3) is looked at. The
  call ends with the exception and returns no record.
\<close>

theorem point_rounded_onto_boundary_raises:
  "(8, 3) \<in> set (record_points src_rounding)
   \<and> real_of_int (cols (t_m src_rounding)) \<le> fst (8 :: real, 3 :: real)
   \<and> Delaunay_project lib_float32 1 True src_rounding dst_blank
       = Inl (CvError ''Subdiv2D: point out of range'')"
proof -
  have p: "(8, 3) \<in> set (record_points src_rounding)"
    by (simp add: record_points_def fullPoints_rounding) (simp add: src_rounding_def)
  have u: "points (t_file src_rounding) \<noteq> [] \<and> rects (t_file src_rounding) \<noteq> []"
    by (simp add: src_rounding_def)
  have "Delaunay_project lib_float32 1 True src_rounding dst_blank
        = Inl (CvError ''Subdiv2D: point out of range'')"
    using u
    by (simp add: Delaunay_project_def Let_def extent_rounding fullPoints_def [symmetric]
        insert_points_rounding bind_def)
  with p show ?thesis
    by (simp add: extent_rounding)
qed

subsection \<open>The stored triangle list\<close>

text \<open>
  C9. Whenever the triangulation returns a record, either it returned early with a
  warning and the input record, storing nothing, or it stored under "DelaunayTriangles"
  the list of valid triangles, with warp enabled as with warp disabled, and the length of
  that flat point list is a multiple of three.
\<close>

theorem stored_triangles_multiple_of_three:
  assumes "Delaunay_project lib sf warp src dst = Inr (ws, dst')"
  shows "(ws \<noteq> [] \<and> dst' = src)
       \<or> (ws = [] \<and> metadata (t_file dst') ''DelaunayTriangles''
                        = Some (PointList (validTriangles lib src))
                  \<and> 3 dvd length (validTriangles lib src))"
proof (cases rule: Delaunay_cases [where src=src and lib=lib and sf=sf and warp=warp and dst=dst])
  case empty
  with assms show ?thesis by auto
next
  case boundary
  with assms show ?thesis by auto
next
  case raised
  with assms show ?thesis by simp
next
  case meshed
  with assms have "ws = [] \<and> metadata (t_file dst') ''DelaunayTriangles''
                        = Some (PointList (validTriangles lib src))"
    by (auto simp add: bind_def setPointList_def split: sum.splits if_splits)
  then show ?thesis
    by (simp add: validTriangles_def length_filter_triangles)
qed

theorem stored_triangles_multiple_of_three_witness:
  "\<not> isl (Delaunay_project lib_example 1 True src_mesh dst_blank)
   \<and> fst (projr (Delaunay_project lib_example 1 True src_mesh dst_blank)) = []
   \<and> metadata (t_file (snd (projr (Delaunay_project lib_example 1 True src_mesh dst_blank))))
        ''DelaunayTriangles'' = Some (PointList triangles_example)
   \<and> length triangles_example = 6"
proof -
  obtain dst' where run:
    "Delaunay_project lib_example 1 True src_mesh dst_blank = Inr ([], dst')"
    using Delaunay_example_warp
    by (cases "Delaunay_project lib_example 1 True src_mesh dst_blank") auto
  from stored_triangles_multiple_of_three [OF run] run show ?thesis
    by (simp add: validTriangles_example) (simp add: triangles_example_def)
qed

subsection \<open>Surviving triangles lie inside the image\<close>

text \<open>
  C3. When the triangulation accepts a point set and completes, every inserted point
  satisfies 0 \<le> x < width and 0 \<le> y < height, and so does every vertex of the stored
  triangle list, although the filter of line 199 only rejects vertices strictly outside
  the closed box: a triangle of the subdivision has its vertices among the inserted
  points (the points of the record as converted to floats, each of which
  \<open>Subdiv2D::insert\<close> accepted) and the three outer vertices of the subdivision, and the
  filter removes every triangle that has an outer vertex.
\<close>

theorem surviving_triangles_inside_image:
  assumes "Delaunay_project lib sf warp src dst = Inr ([], dst')"
    and "subdivision_triangles lib (subdivision lib src)"
  shows "list_all (inside_image (cols (t_m src)) (rows (t_m src))) (fullPoints src)
       \<and> metadata (t_file dst') ''DelaunayTriangles'' = Some (PointList (validTriangles lib src))
       \<and> (\<forall>v\<in>set (validTriangles lib src). inside_image (cols (t_m src)) (rows (t_m src)) v)"
proof (cases rule: Delaunay_cases [where src=src and lib=lib and sf=sf and warp=warp and dst=dst])
  case empty
  with assms show ?thesis by simp
next
  case boundary
  with assms show ?thesis by simp
next
  case raised
  with assms show ?thesis by simp
next
  case meshed
  let ?c = "cols (t_m src)" and ?r = "rows (t_m src)"
  from meshed(4) assms(1) have stored: "metadata (t_file dst') ''DelaunayTriangles''
                        = Some (PointList (validTriangles lib src))"
    by (auto simp add: bind_def setPointList_def split: sum.splits if_splits)
  have "topLeft (last (rects (t_file src))) \<in> set (fullPoints src)"
    by (simp add: fullPoints_def appendCorners_def)
  with meshed(2) have "inside_image ?c ?r (topLeft (last (rects (t_file src))))"
    by (simp add: list_all_iff)
  then have pos: "0 < ?c"
    by (auto simp add: inside_image_def)
  have "inside_image ?c ?r v" if v: "v \<in> set (validTriangles lib src)" for v
  proof -
    from v obtain t where t: "t \<in> set (getTriangleList lib (subdivision lib src))"
      "v \<in> set (triangle_vertices t)" "\<not> outside_matrix ?c ?r v"
      unfolding validTriangles_def by (blast dest: set_filter_triangles)
    from assms(2) t(1,2) have
      "v \<in> set (map (toPoint lib) (fullPoints src)) \<or> v \<in> set (outer_vertices ?c ?r)"
      by (auto simp add: subdivision_triangles_def subdivision_def)
    with t(3) outer_vertices_outside [OF pos] have
      "v \<in> set (map (toPoint lib) (fullPoints src))"
      by blast
    with meshed(3) show ?thesis by (auto simp add: list_all_iff)
  qed
  with stored meshed(2) show ?thesis by simp
qed

theorem surviving_triangles_inside_image_witness:
  "subdivision_triangles lib_example (subdivision lib_example src_mesh)
   \<and> Delaunay_project lib_example 1 False src_mesh dst_blank =
       Inr ([], src_mesh\<lparr>t_file :=
                  setPointList ''DelaunayTriangles'' triangles_example (t_file src_mesh)\<rparr>)
   \<and> list_all (inside_image 8 8) triangles_example"
proof -
  from surviving_triangles_inside_image
    [OF Delaunay_example_nowarp subdivision_triangles_example]
  have "list_all (inside_image 8 8) triangles_example"
    by (simp add: validTriangles_example list_all_iff extent_mesh)
  with subdivision_triangles_example Delaunay_example_nowarp show ?thesis
    by simp
qed

end
